theory Spec2Isabelle
  imports Main "HOL-Library.AList" "HOL-Library.Multiset"
begin

section \<open>Fingerprint and path deriver (utils.ts)\<close>

text \<open>
  JavaScript numbers that occur as timestamps (milliseconds since the epoch) and file sizes
  are modelled as \<^typ>\<open>int\<close>: the model covers integer values only, no fractions and no
  \<open>NaN\<close> or infinities.
\<close>

definition digitChar :: "nat \<Rightarrow> char" where
  "digitChar d = ''0123456789'' ! d"

fun showNat :: "nat \<Rightarrow> string" where
  "showNat n = (if n < 10 then [digitChar n] else showNat (n div 10) @ [digitChar (n mod 10)])"

declare showNat.simps [simp del]

text \<open>Reading a decimal numeral back; used to show that \<open>showNat\<close> loses nothing.\<close>

definition valNat :: "string \<Rightarrow> nat" where
  "valNat s = foldl (\<lambda>acc c. 10 * acc + (of_char c - 48)) 0 s"

definition showInt :: "int \<Rightarrow> string" where
  "showInt i = (if i < 0 then CHR ''-'' # showNat (nat (- i)) else showNat (nat i))"




text \<open>
  The fields of a device media asset that the sync engine reads. An absent or empty
  \<open>filename\<close> is the empty string; absent numbers are \<open>None\<close>.
\<close>

record Asset =
  asset_id :: string
  asset_filename :: string
  asset_uri :: string
  asset_creationTime :: "int option"
  asset_modificationTime :: "int option"
  asset_fileSize :: "int option"










section \<open>Local content cache: eviction (cloudCache.ts)\<close>

definition PRUNE_INTERVAL_MS :: int where
  "PRUNE_INTERVAL_MS = 4 * 60 * 60 * 1000"

definition ENTRY_MAX_AGE_MS :: int where
  "ENTRY_MAX_AGE_MS = 30 * 24 * 60 * 60 * 1000"

definition ENTRY_MAX_AGE_WITH_ORIGINAL_MS :: int where
  "ENTRY_MAX_AGE_WITH_ORIGINAL_MS = 60 * 24 * 60 * 60 * 1000"

definition CACHE_SIZE_LIMIT_BYTES :: int where
  "CACHE_SIZE_LIMIT_BYTES = 400 * 1024 * 1024"

text \<open>
  The loop bound \<open>CACHE_SIZE_LIMIT_BYTES * 0.8\<close> is a floating-point product; for the
  constant above it is the integer 335544320 exactly, and sizes are integers, so the
  comparison is the integer comparison below.
\<close>

definition PRUNE_TARGET_BYTES :: int where
  "PRUNE_TARGET_BYTES = CACHE_SIZE_LIMIT_BYTES * 8 div 10"

record CachedFile =
  cf_file :: string
  cf_updatedAt :: int

record CacheManifest =
  cm_fingerprint :: string
  cm_tag :: string
  cm_preview :: "CachedFile option"
  cm_original :: "CachedFile option"
  cm_lastAccessed :: "int option"
  cm_lastViewed :: "int option"

text \<open>
  One entry directory of the repository's cache directory as the file system presents it:
  its name, the parsed content of its \<open>manifest.json\<close> (\<open>None\<close> when the file is
  missing or is not JSON) and the regular files in it with their sizes.
\<close>

record EntryDir =
  ed_name :: string
  ed_manifest :: "CacheManifest option"
  ed_files :: "(string \<times> nat) list"

definition readManifest :: "EntryDir \<Rightarrow> CacheManifest option" where
  "readManifest e =
     (case ed_manifest e of
        None \<Rightarrow> None
      | Some m \<Rightarrow> if cm_fingerprint m = [] \<or> cm_tag m = [] then None else Some m)"

definition fileSize :: "EntryDir \<Rightarrow> string \<Rightarrow> int" where
  "fileSize e f = (case map_of (ed_files e) f of Some n \<Rightarrow> int n | None \<Rightarrow> 0)"

definition orZero :: "int option \<Rightarrow> int" where
  "orZero v = (case v of Some x \<Rightarrow> x | None \<Rightarrow> 0)"

definition lastUsedOf :: "CacheManifest \<Rightarrow> int" where
  "lastUsedOf m =
     max (max (max (orZero (cm_lastViewed m)) (orZero (cm_lastAccessed m)))
              (orZero (map_option cf_updatedAt (cm_preview m))))
         (orZero (map_option cf_updatedAt (cm_original m)))"

definition maxAgeOf :: "CacheManifest \<Rightarrow> int" where
  "maxAgeOf m = (if cm_original m \<noteq> None then ENTRY_MAX_AGE_WITH_ORIGINAL_MS else ENTRY_MAX_AGE_MS)"

record EntryStat =
  st_dir :: string
  st_size :: int
  st_lastUsed :: int
  st_fingerprint :: string

definition statOf :: "EntryDir \<Rightarrow> CacheManifest \<Rightarrow> EntryStat" where
  "statOf e m =
     \<lparr> st_dir = ed_name e,
       st_size = (case cm_preview m of Some p \<Rightarrow> fileSize e (cf_file p) | None \<Rightarrow> 0)
               + (case cm_original m of Some p \<Rightarrow> fileSize e (cf_file p) | None \<Rightarrow> 0),
       st_lastUsed = lastUsedOf m,
       st_fingerprint = cm_fingerprint m \<rparr>"

text \<open>The age test of the first loop: \<open>age > maxAge\<close>.\<close>

definition agedOut :: "int \<Rightarrow> CacheManifest \<Rightarrow> bool" where
  "agedOut now m = (now - lastUsedOf m > maxAgeOf m)"

text \<open>
  Deleting a directory: \<open>FileSystem.deleteAsync(dir, { idempotent: true }).catch(() => {})\<close>.
  A deletion can fail, and the failure is swallowed; \<open>fails\<close> says for which directories
  the file system refuses. \<open>removeEntry\<close> deletes under the entry's lock. A run attempts
  the deletion of a directory at most once in each of its two loops, so what the file
  system does to a run is given by the directories it refuses in the first loop and those
  it refuses in the second.
\<close>

datatype pruneLoop = FirstLoop | SecondLoop

definition deleteAsync :: "(string \<Rightarrow> bool) \<Rightarrow> string \<Rightarrow> EntryDir list \<Rightarrow> EntryDir list" where
  "deleteAsync fails d fs = (if fails d then fs else filter (\<lambda>e. ed_name e \<noteq> d) fs)"

definition removeEntry :: "(string \<Rightarrow> bool) \<Rightarrow> EntryStat \<Rightarrow> EntryDir list \<Rightarrow> EntryDir list" where
  "removeEntry fails s fs = deleteAsync fails (st_dir s) fs"

text \<open>
  The first loop of \<open>maybePruneRepo\<close>: entries without a readable manifest are deleted
  outright; the others are measured, recorded in \<open>stats\<close>, and removed when older than
  their age threshold. The state is the directory, \<open>totalSize\<close> and \<open>stats\<close>.
\<close>

fun scanEntries ::
  "(string \<Rightarrow> bool) \<Rightarrow> int \<Rightarrow> EntryDir list \<Rightarrow> EntryDir list \<times> int \<times> EntryStat list
     \<Rightarrow> EntryDir list \<times> int \<times> EntryStat list" where
  "scanEntries fails now [] acc = acc"
| "scanEntries fails now (item # rest) (fs, totalSize, stats) =
     (case readManifest item of
        None \<Rightarrow> scanEntries fails now rest (deleteAsync fails (ed_name item) fs, totalSize, stats)
      | Some m \<Rightarrow>
          (let st = statOf item m;
               fs' = (if agedOut now m then removeEntry fails st fs else fs)
           in scanEntries fails now rest (fs', totalSize + st_size st, stats @ [st])))"

text \<open>
  The second loop: oldest first, until the running size is at most the target. The size
  of an entry is subtracted whether or not its directory could be deleted.
\<close>

fun evictLoop :: "(string \<Rightarrow> bool) \<Rightarrow> EntryStat list \<Rightarrow> int \<Rightarrow> EntryDir list \<Rightarrow> EntryDir list" where
  "evictLoop fails [] currentSize fs = fs"
| "evictLoop fails (stat # rest) currentSize fs =
     (if currentSize \<le> PRUNE_TARGET_BYTES then fs
      else evictLoop fails rest (currentSize - st_size stat) (removeEntry fails stat fs))"

definition recentlyPruned :: "int \<Rightarrow> int option \<Rightarrow> bool" where
  "recentlyPruned now lastRun = (case lastRun of Some l \<Rightarrow> l \<noteq> 0 \<and> now - l < PRUNE_INTERVAL_MS | None \<Rightarrow> False)"

text \<open>
  \<open>maybePruneRepo\<close> for one repository: \<open>lastRun\<close> is the repository's slot of
  \<open>repoPruneTracker\<close>, \<open>dir\<close> the content of its cache directory (\<open>None\<close> when the
  directory does not exist or cannot be read). The result is the new slot and directory.
  \<open>Array.prototype.sort\<close> is stable, as \<open>sort_key\<close> is.
\<close>

definition maybePruneRepo ::
  "(pruneLoop \<Rightarrow> string \<Rightarrow> bool) \<Rightarrow> int \<Rightarrow> int option \<Rightarrow> EntryDir list option
     \<Rightarrow> int option \<times> EntryDir list option" where
  "maybePruneRepo fails now lastRun dir =
     (if recentlyPruned now lastRun then (lastRun, dir)
      else case dir of
        None \<Rightarrow> (Some now, None)
      | Some entries \<Rightarrow>
          (case scanEntries (fails FirstLoop) now entries (entries, 0, []) of
             (fs, totalSize, stats) \<Rightarrow>
               if totalSize \<le> CACHE_SIZE_LIMIT_BYTES then (Some now, Some fs)
               else (Some now,
                     Some (evictLoop (fails SecondLoop) (sort_key st_lastUsed stats) totalSize fs))))"

text \<open>The size the run attributes to an entry, and the total over a directory.\<close>

definition entrySize :: "EntryDir \<Rightarrow> int" where
  "entrySize e = (case readManifest e of None \<Rightarrow> 0 | Some m \<Rightarrow> st_size (statOf e m))"

definition cacheSize :: "EntryDir list \<Rightarrow> int" where
  "cacheSize fs = sum_list (map entrySize fs)"

text \<open>Bookkeeping for the proofs: what the run has measured, as multisets of (directory, size).\<close>

definition entryPair :: "EntryDir \<Rightarrow> string \<times> int" where
  "entryPair e = (ed_name e, entrySize e)"

definition statPair :: "EntryStat \<Rightarrow> string \<times> int" where
  "statPair s = (st_dir s, st_size s)"

definition accounted :: "EntryDir list \<Rightarrow> EntryStat list \<Rightarrow> bool" where
  "accounted fs ss = (image_mset entryPair (mset fs) \<subseteq># image_mset statPair (mset ss))"

definition statsOf :: "EntryDir list \<Rightarrow> EntryStat list" where
  "statsOf es = concat (map (\<lambda>e. case readManifest e of None \<Rightarrow> [] | Some m \<Rightarrow> [statOf e m]) es)"

text \<open>An entry the first loop removes: no readable manifest, or too old.\<close>

definition mustGo :: "int \<Rightarrow> EntryDir \<Rightarrow> bool" where
  "mustGo now e = (case readManifest e of None \<Rightarrow> True | Some m \<Rightarrow> agedOut now m)"

text \<open>
  For the statement of the result. \<open>oldestFirst\<close>: the entries with a readable manifest,
  as measured, by ascending last-use time, those with the same time in directory order.
  \<open>measuredAfter k\<close>: the measured total less the sizes of the first \<open>k\<close> of them.
  \<open>survivors k\<close>: the directory without the entries the first loop removes and without
  the first \<open>k\<close> of \<open>oldestFirst\<close>, except that an entry stays when every deletion of
  its directory that the run attempts fails.
\<close>

definition oldestFirst :: "EntryDir list \<Rightarrow> EntryStat list" where
  "oldestFirst entries = sort_key st_lastUsed (statsOf entries)"

definition measuredAfter :: "EntryDir list \<Rightarrow> nat \<Rightarrow> int" where
  "measuredAfter entries k = cacheSize entries - sum_list (map st_size (take k (oldestFirst entries)))"

definition survivors :: "(pruneLoop \<Rightarrow> string \<Rightarrow> bool) \<Rightarrow> int \<Rightarrow> EntryDir list \<Rightarrow> nat \<Rightarrow> EntryDir list" where
  "survivors fails now entries k =
     filter (\<lambda>e. (fails FirstLoop (ed_name e) \<or> \<not> mustGo now e)
                 \<and> (fails SecondLoop (ed_name e)
                      \<or> ed_name e \<notin> st_dir ` set (take k (oldestFirst entries))))
            entries"

text \<open>
  Concrete cache entries. \<open>entryA\<close> and \<open>entryB\<close> have the same size and the same
  last-use time, and only \<open>entryA\<close> has a cached original; \<open>entryC\<close> (with a cached
  original) and \<open>entryD\<close> (without) are small and were last used long before.
\<close>

definition manifestA :: CacheManifest where
  "manifestA = \<lparr> cm_fingerprint = ''IMG_1.jpg|1000|0'', cm_tag = ''h|1|p|1'',
      cm_preview = Some \<lparr> cf_file = ''preview.jpg'', cf_updatedAt = 6000000000 \<rparr>,
      cm_original = Some \<lparr> cf_file = ''original.jpg'', cf_updatedAt = 6000000000 \<rparr>,
      cm_lastAccessed = Some 6000000000, cm_lastViewed = Some 6000000000 \<rparr>"

definition manifestB :: CacheManifest where
  "manifestB = \<lparr> cm_fingerprint = ''IMG_2.jpg|1000|0'', cm_tag = ''h|1|q|1'',
      cm_preview = Some \<lparr> cf_file = ''preview.jpg'', cf_updatedAt = 6000000000 \<rparr>,
      cm_original = None,
      cm_lastAccessed = Some 6000000000, cm_lastViewed = None \<rparr>"

definition manifestC :: CacheManifest where
  "manifestC = \<lparr> cm_fingerprint = ''IMG_3.jpg|1000|0'', cm_tag = ''h|1|r|1'',
      cm_preview = Some \<lparr> cf_file = ''preview.jpg'', cf_updatedAt = 1000 \<rparr>,
      cm_original = Some \<lparr> cf_file = ''original.jpg'', cf_updatedAt = 1000 \<rparr>,
      cm_lastAccessed = Some 1000, cm_lastViewed = Some 1000 \<rparr>"

definition manifestD :: CacheManifest where
  "manifestD = \<lparr> cm_fingerprint = ''IMG_4.jpg|1000|0'', cm_tag = ''h|1|s|1'',
      cm_preview = Some \<lparr> cf_file = ''preview.jpg'', cf_updatedAt = 1000 \<rparr>,
      cm_original = None,
      cm_lastAccessed = Some 1000, cm_lastViewed = None \<rparr>"

definition entryA :: EntryDir where
  "entryA = \<lparr> ed_name = ''IMG_1.jpg_1000_0'', ed_manifest = Some manifestA,
      ed_files = [(''preview.jpg'', 10485760), (''original.jpg'', 209715200)] \<rparr>"

definition entryB :: EntryDir where
  "entryB = \<lparr> ed_name = ''IMG_2.jpg_1000_0'', ed_manifest = Some manifestB,
      ed_files = [(''preview.jpg'', 220200960)] \<rparr>"

definition entryC :: EntryDir where
  "entryC = \<lparr> ed_name = ''IMG_3.jpg_1000_0'', ed_manifest = Some manifestC,
      ed_files = [(''preview.jpg'', 100), (''original.jpg'', 900)] \<rparr>"

definition entryD :: EntryDir where
  "entryD = \<lparr> ed_name = ''IMG_4.jpg_1000_0'', ed_manifest = Some manifestD,
      ed_files = [(''preview.jpg'', 1000)] \<rparr>"

section \<open>Job queue (jobQueue.ts)\<close>

text \<open>
  The queue is a chain of promises. A promise is modelled by the expression that built
  it: \<open>Promise.resolve()\<close>, \<open>p.then(() => job())\<close> for the job with a given number,
  \<open>p.catch(() => {})\<close> and \<open>p.finally(f)\<close> for the counter update \<open>f\<close>, which
  does not throw.
\<close>

datatype outcome = Fulfilled | Rejected

datatype promise =
    Resolved
  | Then promise nat
  | Catch promise
  | Finally promise

record JobQueue =
  jq_current :: promise
  jq_size :: nat

definition newJobQueue :: JobQueue where
  "newJobQueue = \<lparr> jq_current = Resolved, jq_size = 0 \<rparr>"

text \<open>\<open>enqueue\<close> returns the queue and the promise handed to the caller.\<close>

definition enqueue :: "JobQueue \<Rightarrow> nat \<Rightarrow> JobQueue \<times> promise" where
  "enqueue q job =
     (let wrapped = Then (jq_current q) job
      in (\<lparr> jq_current = Catch wrapped, jq_size = jq_size q + 1 \<rparr>, Finally wrapped))"

definition enqueueAll :: "JobQueue \<Rightarrow> nat list \<Rightarrow> JobQueue" where
  "enqueueAll q jobs = foldl (\<lambda>q job. fst (enqueue q job)) q jobs"

text \<open>
  How a promise settles, and what has to happen before it does. The environment \<open>env\<close>
  says how the promise returned by each job settles (a job that throws counts as
  rejected). A \<open>then\<close> callback is invoked only once its promise is fulfilled, and the
  resulting promise follows the promise the callback returns; on rejection the callback
  is skipped and the rejection is passed on. A \<open>catch\<close> handler that returns normally
  fulfils. The trace lists the job events in the order in which they must occur.
\<close>

datatype event = Invoked nat | Settled nat outcome

fun settle :: "(nat \<Rightarrow> outcome) \<Rightarrow> promise \<Rightarrow> outcome \<times> event list" where
  "settle env Resolved = (Fulfilled, [])"
| "settle env (Then p job) =
     (case settle env p of
        (Fulfilled, tr) \<Rightarrow> (env job, tr @ [Invoked job, Settled job (env job)])
      | (Rejected, tr) \<Rightarrow> (Rejected, tr))"
| "settle env (Catch p) = (case settle env p of (r, tr) \<Rightarrow> (Fulfilled, tr))"
| "settle env (Finally p) = settle env p"

definition queueTrace :: "(nat \<Rightarrow> outcome) \<Rightarrow> JobQueue \<Rightarrow> event list" where
  "queueTrace env q = snd (settle env (jq_current q))"

definition jobEvents :: "(nat \<Rightarrow> outcome) \<Rightarrow> nat list \<Rightarrow> event list" where
  "jobEvents env jobs = concat (map (\<lambda>job. [Invoked job, Settled job (env job)]) jobs)"

section \<open>The remote repository\<close>

text \<open>
  Modelled from the spec: the hosting backend behind the content API (it is not part of
  the repository). It is a tree of directories and files; every file version has a SHA;
  a write names the SHA it replaces and is refused with a version conflict when that is
  not the current one; a read of a missing path is "not found".

  The content of a file is either JSON text, kept as the value it parses to, or other
  bytes (\<open>Blob\<close>, kept in base64). Strings are taken to be ASCII.
\<close>

datatype json =
    JNull
  | JBool bool
  | JNum int
  | JStr string
  | JArr "json list"
  | JObj "(string \<times> json) list"

datatype content = Blob string | JsonText json

datatype node = File string content | Dir "(string \<times> node) list"

datatype error = NotFound | VersionConflict | Unprocessable

datatype writeOp = PutFile string | DeleteFile string

record Remote =
  rm_root :: "(string \<times> node) list"
  rm_nextSha :: nat
  rm_log :: "writeOp list"

text \<open>\<open>String.prototype.split\<close> on a single character.\<close>

fun splitOn :: "char \<Rightarrow> string \<Rightarrow> string list" where
  "splitOn c [] = [[]]"
| "splitOn c (x # xs) =
     (if x = c then [] # splitOn c xs
      else (case splitOn c xs of [] \<Rightarrow> [[x]] | s # ss \<Rightarrow> (x # s) # ss))"

definition splitPath :: "string \<Rightarrow> string list" where
  "splitPath p = splitOn (CHR ''/'') p"


fun lookupPath :: "string list \<Rightarrow> (string \<times> node) list \<Rightarrow> node option" where
  "lookupPath [] ch = Some (Dir ch)"
| "lookupPath (s # ss) ch =
     (case map_of ch s of
        None \<Rightarrow> None
      | Some (File sha c) \<Rightarrow> if ss = [] then Some (File sha c) else None
      | Some (Dir sub) \<Rightarrow> lookupPath ss sub)"

text \<open>Writing a file creates the directories above it; it cannot replace a directory or pass through a file.\<close>

fun putPath :: "string list \<Rightarrow> node \<Rightarrow> (string \<times> node) list \<Rightarrow> (string \<times> node) list option" where
  "putPath [] f ch = None"
| "putPath (s # ss) f ch =
     (if ss = [] then
        (case map_of ch s of
           Some (Dir sub) \<Rightarrow> None
         | _ \<Rightarrow> Some (AList.update s f ch))
      else
        (case map_of ch s of
           None \<Rightarrow> map_option (\<lambda>sub'. AList.update s (Dir sub') ch) (putPath ss f [])
         | Some (File sha c) \<Rightarrow> None
         | Some (Dir sub) \<Rightarrow> map_option (\<lambda>sub'. AList.update s (Dir sub') ch) (putPath ss f sub)))"

text \<open>Deleting a file removes the directories it leaves empty.\<close>

fun deletePath :: "string list \<Rightarrow> (string \<times> node) list \<Rightarrow> (string \<times> node) list" where
  "deletePath [] ch = ch"
| "deletePath (s # ss) ch =
     (case map_of ch s of
        None \<Rightarrow> ch
      | Some (File sha c) \<Rightarrow> if ss = [] then AList.delete s ch else ch
      | Some (Dir sub) \<Rightarrow>
          (let sub' = deletePath ss sub
           in if sub' = [] then AList.delete s ch else AList.update s (Dir sub') ch))"

datatype item = Item string string

datatype getResult = FileData string content | Listing "item list"

definition itemOf :: "string \<Rightarrow> string \<times> node \<Rightarrow> item" where
  "itemOf path entry =
     (case entry of
        (name, File sha c) \<Rightarrow> Item ''file'' (path @ ''/'' @ name)
      | (name, Dir sub) \<Rightarrow> Item ''dir'' (path @ ''/'' @ name))"

definition getContent :: "Remote \<Rightarrow> string \<Rightarrow> error + getResult" where
  "getContent r path =
     (case lookupPath (splitPath path) (rm_root r) of
        None \<Rightarrow> Inl NotFound
      | Some (File sha c) \<Rightarrow> Inr (FileData sha c)
      | Some (Dir sub) \<Rightarrow> Inr (Listing (map (itemOf path) sub)))"

definition freshSha :: "Remote \<Rightarrow> string" where
  "freshSha r = ''sha'' @ showNat (rm_nextSha r)"

definition createOrUpdateFileContents ::
  "Remote \<Rightarrow> string \<Rightarrow> content \<Rightarrow> string option \<Rightarrow> (error + string) \<times> Remote" where
  "createOrUpdateFileContents r path c sha =
     (let current = (case lookupPath (splitPath path) (rm_root r) of
                       Some (File cur old) \<Rightarrow> Some (Some cur)
                     | Some (Dir sub) \<Rightarrow> None
                     | None \<Rightarrow> Some None)
      in case current of
           None \<Rightarrow> (Inl Unprocessable, r)
         | Some cur \<Rightarrow>
             if sha \<noteq> cur then (Inl VersionConflict, r)
             else (case putPath (splitPath path) (File (freshSha r) c) (rm_root r) of
                     None \<Rightarrow> (Inl Unprocessable, r)
                   | Some root' \<Rightarrow>
                       (Inr (freshSha r),
                        r\<lparr> rm_root := root', rm_nextSha := rm_nextSha r + 1,
                           rm_log := rm_log r @ [PutFile path] \<rparr>)))"

definition deleteFileContents :: "Remote \<Rightarrow> string \<Rightarrow> string \<Rightarrow> (error + unit) \<times> Remote" where
  "deleteFileContents r path sha =
     (case lookupPath (splitPath path) (rm_root r) of
        Some (File cur old) \<Rightarrow>
          if sha \<noteq> cur then (Inl VersionConflict, r)
          else (Inr (), r\<lparr> rm_root := deletePath (splitPath path) (rm_root r),
                           rm_log := rm_log r @ [DeleteFile path] \<rparr>)
      | Some (Dir sub) \<Rightarrow> (Inl Unprocessable, r)
      | None \<Rightarrow> (Inl NotFound, r))"

section \<open>Remote storage bridge (githubClient.ts)\<close>

definition fetchFileSha :: "Remote \<Rightarrow> string \<Rightarrow> error + string option" where
  "fetchFileSha r path =
     (case getContent r path of
        Inr (Listing items) \<Rightarrow> Inr None
      | Inr (FileData sha c) \<Rightarrow> Inr (Some sha)
      | Inl NotFound \<Rightarrow> Inr None
      | Inl e \<Rightarrow> Inl e)"

text \<open>
  \<open>putFile\<close>: \<open>params.sha ?? (await fetchFileSha(...))\<close>, then the write. Without a
  SHA these are two requests, one after the other; \<open>others\<close> is what the other writers
  of the repository do to it between the two (the identity when nobody else writes).
  With a SHA there is the one request.
\<close>

definition putFile ::
  "Remote \<Rightarrow> (Remote \<Rightarrow> Remote) \<Rightarrow> string \<Rightarrow> string \<Rightarrow> string option \<Rightarrow> (error + string) \<times> Remote" where
  "putFile r others path contentBase64 sha =
     (case sha of
        Some s \<Rightarrow> createOrUpdateFileContents r path (Blob contentBase64) (Some s)
      | None \<Rightarrow>
          (case fetchFileSha r path of
             Inl e \<Rightarrow> (Inl e, r)
           | Inr sha' \<Rightarrow> createOrUpdateFileContents (others r) path (Blob contentBase64) sha'))"

text \<open>
  \<open>deleteFile\<close>: nothing happens when no SHA is found (\<open>!sha\<close> also covers an empty
  SHA); otherwise the deletion is a second request, after what the others did.
\<close>

definition deleteFile :: "Remote \<Rightarrow> (Remote \<Rightarrow> Remote) \<Rightarrow> string \<Rightarrow> (error + unit) \<times> Remote" where
  "deleteFile r others path =
     (case fetchFileSha r path of
        Inl e \<Rightarrow> (Inl e, r)
      | Inr None \<Rightarrow> (Inr (), r)
      | Inr (Some sha) \<Rightarrow> if sha = [] then (Inr (), r) else deleteFileContents (others r) path sha)"

text \<open>A remote that holds one media file.\<close>

definition remoteA :: Remote where
  "remoteA =
     \<lparr> rm_root = [(''gitgallery'', Dir [(''images'', Dir [(''Camera'',
                     Dir [(''a.jpg'', File ''sha0'' (Blob ''AAAA''))])])])],
       rm_nextSha = 1, rm_log = [] \<rparr>"

definition pathA :: string where
  "pathA = ''gitgallery/images/Camera/a.jpg''"

definition pathB :: string where
  "pathB = ''gitgallery/images/Camera/b.jpg''"

text \<open>
  Another client of the repository that uploads a file of its own between two requests
  of this one: to the same path, or to another path.
\<close>

definition otherWriter :: "string \<Rightarrow> Remote \<Rightarrow> Remote" where
  "otherWriter path r = snd (putFile r (\<lambda>r. r) path ''CCCC'' None)"

section \<open>Sharded remote metadata store: buckets and paths (metaIndex.ts)\<close>

definition META_ROOT :: string where
  "META_ROOT = ''gitgallery/meta''"

definition META_MANIFEST_PATH :: string where
  "META_MANIFEST_PATH = META_ROOT @ ''/manifest.json''"

definition LEGACY_META_SHARD_DIR :: string where
  "LEGACY_META_SHARD_DIR = META_ROOT @ ''/shards''"

definition SHARD_FILENAME :: string where
  "SHARD_FILENAME = ''meta_dict.json''"

definition MANIFEST_VERSION :: int where
  "MANIFEST_VERSION = 1"

definition SHARD_VERSION :: int where
  "SHARD_VERSION = 1"

definition DEFAULT_PRELOAD_TARGET :: nat where
  "DEFAULT_PRELOAD_TARGET = 450"

subsection \<open>Characters and regular expressions\<close>

definition isDigit :: "char \<Rightarrow> bool" where
  "isDigit c = (48 \<le> (of_char c :: nat) \<and> (of_char c :: nat) \<le> 57)"

definition isLower :: "char \<Rightarrow> bool" where
  "isLower c = (97 \<le> (of_char c :: nat) \<and> (of_char c :: nat) \<le> 122)"

definition isSpace :: "char \<Rightarrow> bool" where
  "isSpace c = ((of_char c :: nat) = 32 \<or> (9 \<le> (of_char c :: nat) \<and> (of_char c :: nat) \<le> 13))"

definition toLowerChar :: "char \<Rightarrow> char" where
  "toLowerChar c =
     (case map_of (zip ''ABCDEFGHIJKLMNOPQRSTUVWXYZ'' ''abcdefghijklmnopqrstuvwxyz'') c of
        Some l \<Rightarrow> l
      | None \<Rightarrow> c)"

definition trim :: "string \<Rightarrow> string" where
  "trim s = rev (dropWhile isSpace (rev (dropWhile isSpace s)))"

definition isPrefix :: "string \<Rightarrow> string \<Rightarrow> bool" where
  "isPrefix p s = (take (length p) s = p)"

text \<open>
  The regular expressions of the module are sequences of: literal text, \<open>(\d{n})\<close>,
  \<open>(.+)\<close> (greedy; the dot excludes line terminators) and the end-of-input assertion
  \<open>$\<close>. \<open>rxMatch\<close> matches a sequence at the start of a string and returns the
  captured groups.
\<close>

datatype rx = RLit string | RDigits nat | RAny1 | REnd

fun rxMatch :: "rx list \<Rightarrow> string \<Rightarrow> string list option" where
  "rxMatch [] s = Some []"
| "rxMatch (RLit l # ps) s =
     (if isPrefix l s then rxMatch ps (drop (length l) s) else None)"
| "rxMatch (RDigits n # ps) s =
     (if n \<le> length s \<and> list_all isDigit (take n s)
      then map_option (\<lambda>caps. take n s # caps) (rxMatch ps (drop n s))
      else None)"
| "rxMatch (RAny1 # ps) s =
     (case List.find (\<lambda>k. rxMatch ps (drop k s) \<noteq> None)
             (rev [1 ..< Suc (length (takeWhile (\<lambda>c. c \<noteq> CHR 0x0A \<and> c \<noteq> CHR 0x0D) s))]) of
        None \<Rightarrow> None
      | Some k \<Rightarrow> map_option (\<lambda>caps. take k s # caps) (rxMatch ps (drop k s)))"
| "rxMatch (REnd # ps) s = (if s = [] then rxMatch ps s else None)"


subsection \<open>Plain objects\<close>

text \<open>
  A plain object is the list of its own properties in the order in which JavaScript
  enumerates them (\<open>Object.entries\<close>, \<open>Object.keys\<close>, \<open>JSON.stringify\<close>): first the
  keys that are array indices, that is canonical decimal numerals up to \<open>2^32 - 2\<close>, in
  ascending numeric order, then the other keys in the order of their creation.
  \<open>setProp\<close> defines or replaces an own property; \<open>parsedProps\<close> is the object that
  \<open>JSON.parse\<close> makes of the members of an object in the text (of members with the same
  key the last one gives the value).
\<close>

fun allDigits :: "string \<Rightarrow> bool" where
  "allDigits [] = True"
| "allDigits (c # cs) = (if isDigit c then allDigits cs else False)"

definition isArrayIndex :: "string \<Rightarrow> bool" where
  "isArrayIndex k =
     (if k = [] then False
      else if \<not> allDigits k then False
      else if hd k = CHR ''0'' \<and> tl k \<noteq> [] then False
      else valNat k \<le> 4294967294)"

fun insertProp :: "string \<Rightarrow> 'v \<Rightarrow> (string \<times> 'v) list \<Rightarrow> (string \<times> 'v) list" where
  "insertProp k v [] = [(k, v)]"
| "insertProp k v (p # rest) =
     (if isArrayIndex k \<and> (\<not> isArrayIndex (fst p) \<or> valNat k < valNat (fst p)) then (k, v) # p # rest
      else p # insertProp k v rest)"

definition setProp :: "string \<Rightarrow> 'v \<Rightarrow> (string \<times> 'v) list \<Rightarrow> (string \<times> 'v) list" where
  "setProp k v obj = (if map_of obj k \<noteq> None then AList.update k v obj else insertProp k v obj)"

definition parsedProps :: "(string \<times> 'v) list \<Rightarrow> (string \<times> 'v) list" where
  "parsedProps members = foldl (\<lambda>obj member. setProp (fst member) (snd member) obj) [] members"

text \<open>
  An assignment \<open>obj[k] = v\<close> to a plain object defines or replaces the own property
  \<open>k\<close>, except for the key \<open>__proto__\<close>: that assignment (of an object) replaces the
  prototype and leaves the own properties as they are. \<open>assignProp\<close> is the assignment
  for objects that are never read through their prototype.
\<close>

definition assignProp :: "string \<Rightarrow> 'v \<Rightarrow> (string \<times> 'v) list \<Rightarrow> (string \<times> 'v) list" where
  "assignProp k v obj = (if k = ''__proto__'' then obj else setProp k v obj)"

text \<open>The property names that every plain object inherits from \<open>Object.prototype\<close>; the values are functions, or for \<open>__proto__\<close> the prototype, all of them truthy.\<close>

definition objectPrototypeKeys :: "string list" where
  "objectPrototypeKeys =
     [''constructor'', ''__defineGetter__'', ''__defineSetter__'', ''hasOwnProperty'',
      ''__lookupGetter__'', ''__lookupSetter__'', ''isPrototypeOf'', ''propertyIsEnumerable'',
      ''toString'', ''valueOf'', ''__proto__'', ''toLocaleString'']"

subsection \<open>Buckets\<close>

definition sanitizeBucket :: "string \<Rightarrow> string" where
  "sanitizeBucket bucket =
     (let safe = map toLowerChar (trim bucket);
          cleaned = map (\<lambda>c. if isDigit c \<or> isLower c \<or> c = CHR ''-'' then c else CHR ''-'') safe
      in if cleaned = [] then ''unknown'' else cleaned)"

definition bucketDateParts :: "string \<Rightarrow> (string \<times> string \<times> string) option" where
  "bucketDateParts bucket =
     (case rxMatch [RDigits 4, RLit ''-'', RDigits 2, RLit ''-'', RDigits 2, REnd] bucket of
        Some [y, m, d] \<Rightarrow> Some (y, m, d)
      | _ \<Rightarrow> None)"

definition getShardPath :: "string \<Rightarrow> string" where
  "getShardPath bucket =
     (case bucketDateParts bucket of
        Some (y, m, d) \<Rightarrow> META_ROOT @ ''/'' @ y @ ''/'' @ m @ ''/'' @ d @ ''/'' @ SHARD_FILENAME
      | None \<Rightarrow>
          if bucket = ''unknown'' then META_ROOT @ ''/unknown/'' @ SHARD_FILENAME
          else LEGACY_META_SHARD_DIR @ ''/'' @ sanitizeBucket bucket @ ''.json'')"

text \<open>
  The UTC calendar date of a time value in milliseconds (what \<open>getUTCFullYear\<close>,
  \<open>getUTCMonth() + 1\<close> and \<open>getUTCDate\<close> return), by the usual era computation on
  the day number.
\<close>

definition utcDate :: "int \<Rightarrow> int \<times> int \<times> int" where
  "utcDate ms =
     (let z = ms div 86400000 + 719468;
          era = z div 146097;
          doe = z mod 146097;
          yoe = (doe - doe div 1460 + doe div 36524 - doe div 146096) div 365;
          doy = doe - (365 * yoe + yoe div 4 - yoe div 100);
          mp = (5 * doy + 2) div 153;
          d = doy - (153 * mp + 2) div 5 + 1;
          m = (if mp < 10 then mp + 3 else mp - 9);
          y = yoe + era * 400 + (if m \<le> 2 then 1 else 0)
      in (y, m, d))"

definition pad2 :: "int \<Rightarrow> string" where
  "pad2 n = (if n < 10 then ''0'' @ showInt n else showInt n)"

definition bucketFromTimestamp :: "int option \<Rightarrow> string" where
  "bucketFromTimestamp v =
     (case v of
        None \<Rightarrow> ''unknown''
      | Some t \<Rightarrow>
          if t = 0 \<or> 8640000000000000 < \<bar>t\<bar> then ''unknown''
          else (case utcDate t of (y, m, d) \<Rightarrow> showInt y @ ''-'' @ pad2 m @ ''-'' @ pad2 d))"

text \<open>
  \<open>Number(text)\<close> for the texts that are decimal integers (optional sign, surrounding
  white space, the empty text is 0). Other numeric notations (fractions, exponents, hex)
  are not recognised by the model and count as not finite; fingerprints made by
  \<open>makeFingerprint\<close> carry a decimal integer.
\<close>

definition parseNumber :: "string \<Rightarrow> int option" where
  "parseNumber text =
     (let t = trim text;
          neg = (t \<noteq> [] \<and> hd t = CHR ''-'');
          body = (if t \<noteq> [] \<and> (hd t = CHR ''-'' \<or> hd t = CHR ''+'') then tl t else t)
      in if t = [] then Some 0
         else if body \<noteq> [] \<and> list_all isDigit body
           then Some ((if neg then - 1 else 1) * int (valNat body))
           else None)"

definition bucketFromFingerprint :: "string \<Rightarrow> string" where
  "bucketFromFingerprint fingerprint =
     (let parts = splitOn (CHR ''|'') fingerprint
      in if 2 \<le> length parts
         then (case parseNumber (parts ! 1) of
                 Some timestamp \<Rightarrow> bucketFromTimestamp (Some timestamp)
               | None \<Rightarrow> ''unknown'')
         else ''unknown'')"


text \<open>
  \<open>bucketFromShardFilePath\<close>. Three of its four patterns are regular-expression
  literals that contain the text \<open>${SHARD_FILENAME}\<close>; in a regular-expression literal
  this is not a substitution but the assertion \<open>$\<close> followed by the literal characters
  \<open>{SHARD_FILENAME}\<close>, and the patterns are transcribed as such.
\<close>

definition bucketFromShardFilePath :: "string option \<Rightarrow> string option" where
  "bucketFromShardFilePath path =
     (case path of
        None \<Rightarrow> None
      | Some p \<Rightarrow>
          if p = [] then None
          else
            (let normalized = map (\<lambda>c. if c = CHR 0x5C then CHR ''/'' else c) p
             in case rxMatch [RLit ''gitgallery/meta/'', RDigits 4, RLit ''/'', RDigits 2, RLit ''/'',
                              RDigits 2, RLit ''/'', REnd, RLit ''{SHARD_FILENAME}'', REnd] normalized of
                  Some [y, m, d] \<Rightarrow> Some (y @ ''-'' @ m @ ''-'' @ d)
                | _ \<Rightarrow>
                (case rxMatch [RLit ''gitgallery/meta/unknown/'', REnd, RLit ''{SHARD_FILENAME}'', REnd]
                        normalized of
                   Some caps \<Rightarrow> Some ''unknown''
                 | None \<Rightarrow>
                 (case rxMatch [RLit ''gitgallery/meta/shards/'', RAny1, RLit ''.json'', REnd] normalized of
                    Some [b] \<Rightarrow> Some (sanitizeBucket b)
                  | _ \<Rightarrow>
                  (case rxMatch [RLit ''gitgallery/meta/misc/'', RAny1, RLit ''/'', REnd,
                                 RLit ''{SHARD_FILENAME}'', REnd] normalized of
                     Some [b] \<Rightarrow> Some (sanitizeBucket b)
                   | _ \<Rightarrow> None)))))"

subsection \<open>Documents\<close>

record MetaEntry =
  me_fingerprint :: string
  me_repoPath :: string
  me_previewRepoPath :: "string option"
  me_createdAt :: "int option"
  me_fileSize :: "int option"
  me_contentHash :: "string option"
  me_uploadedAt :: "int option"
  me_assetId :: "string option"

record MetaShardEntry = MetaEntry +
  se_updatedAt :: int

text \<open>
  A shard document. \<open>entries\<close> is a plain object: \<open>sd_entries\<close> are its own
  properties, and \<open>sd_proto\<close> is the entry that an assignment to the key \<open>__proto__\<close>
  made its prototype (\<open>None\<close>: the prototype is \<open>Object.prototype\<close>).
\<close>

record MetaShardDocument =
  sd_version :: int
  sd_bucket :: string
  sd_generatedAt :: int
  sd_entries :: "(string \<times> MetaShardEntry) list"
  sd_proto :: "MetaShardEntry option"

record ManifestShardInfo =
  si_path :: string
  si_count :: int
  si_updatedAt :: int
  si_sha :: "string option"

record MetaManifest =
  mf_version :: int
  mf_updatedAt :: int
  mf_shards :: "(string \<times> ManifestShardInfo) list"

record ShardCacheEntry =
  sc_bucket :: string
  sc_path :: string
  sc_sha :: "string option"
  sc_count :: int
  sc_updatedAt :: int
  sc_doc :: "MetaShardDocument option"
  sc_loaded :: bool

record Cache =
  c_manifest :: MetaManifest
  c_manifestSha :: "string option"
  c_shards :: "(string \<times> ShardCacheEntry) list"
  c_fetchedAt :: int

text \<open>
  The module state: \<open>cache\<close> and the five reverse indices. A \<open>Map\<close> is an association
  list in insertion order (\<open>AList.update\<close> replaces in place or appends, as
  \<open>Map.prototype.set\<close> does); \<open>Set\<close>s are lists without repetition.
\<close>

record MetaState =
  ms_cache :: "Cache option"
  ms_metaByFingerprint :: "(string \<times> MetaShardEntry) list"
  ms_pathToFingerprint :: "(string \<times> string) list"
  ms_fingerprintToBucket :: "(string \<times> string) list"
  ms_bucketToFingerprints :: "(string \<times> string list) list"
  ms_fingerprintToPaths :: "(string \<times> string list) list"

definition emptyMetaState :: MetaState where
  "emptyMetaState =
     \<lparr> ms_cache = None, ms_metaByFingerprint = [], ms_pathToFingerprint = [],
       ms_fingerprintToBucket = [], ms_bucketToFingerprints = [], ms_fingerprintToPaths = [] \<rparr>"

subsection \<open>JSON: reading fields, \<open>encode\<close> and \<open>decode\<close>\<close>

text \<open>
  Reading a field of a parsed value: a \<open>JObj\<close> holds the members as the text has them,
  and the last member with the name gives the value. The field names that the module
  reads are not inherited from a prototype.
\<close>

definition jfield :: "json option \<Rightarrow> string \<Rightarrow> json option" where
  "jfield v name = (case v of Some (JObj kvs) \<Rightarrow> map_of (rev kvs) name | _ \<Rightarrow> None)"

definition toNumber :: "json option \<Rightarrow> int \<Rightarrow> int" where
  "toNumber v fallback = (case v of Some (JNum n) \<Rightarrow> n | _ \<Rightarrow> fallback)"

definition toNullableNumber :: "json option \<Rightarrow> int option" where
  "toNullableNumber v = (case v of Some (JNum n) \<Rightarrow> Some n | _ \<Rightarrow> None)"

definition toOptionalString :: "json option \<Rightarrow> string option" where
  "toOptionalString v = (case v of Some (JStr s) \<Rightarrow> if s \<noteq> [] then Some s else None | _ \<Rightarrow> None)"

text \<open>\<open>Object.entries\<close> of a value that passed \<open>typeof v === 'object'\<close> and is not null.\<close>

definition objectEntries :: "json option \<Rightarrow> (string \<times> json) list" where
  "objectEntries v =
     (case v of
        Some (JObj kvs) \<Rightarrow> parsedProps kvs
      | Some (JArr xs) \<Rightarrow> zip (map showNat [0 ..< length xs]) xs
      | _ \<Rightarrow> [])"

definition isObject :: "json \<Rightarrow> bool" where
  "isObject v = (case v of JObj kvs \<Rightarrow> True | JArr xs \<Rightarrow> True | _ \<Rightarrow> False)"

definition jsonOfString :: "string option \<Rightarrow> json" where
  "jsonOfString v = (case v of Some s \<Rightarrow> JStr s | None \<Rightarrow> JNull)"

definition jsonOfNumber :: "int option \<Rightarrow> json" where
  "jsonOfNumber v = (case v of Some n \<Rightarrow> JNum n | None \<Rightarrow> JNull)"

definition jsonOfEntry :: "MetaShardEntry \<Rightarrow> json" where
  "jsonOfEntry e =
     JObj [(''fingerprint'', JStr (me_fingerprint e)),
           (''repoPath'', JStr (me_repoPath e)),
           (''previewRepoPath'', jsonOfString (me_previewRepoPath e)),
           (''createdAt'', jsonOfNumber (me_createdAt e)),
           (''fileSize'', jsonOfNumber (me_fileSize e)),
           (''contentHash'', jsonOfString (me_contentHash e)),
           (''uploadedAt'', jsonOfNumber (me_uploadedAt e)),
           (''assetId'', jsonOfString (me_assetId e)),
           (''updatedAt'', JNum (se_updatedAt e))]"

definition jsonOfShard :: "MetaShardDocument \<Rightarrow> json" where
  "jsonOfShard doc =
     JObj [(''version'', JNum (sd_version doc)),
           (''bucket'', JStr (sd_bucket doc)),
           (''generatedAt'', JNum (sd_generatedAt doc)),
           (''entries'', JObj (map (\<lambda>(k, e). (k, jsonOfEntry e)) (sd_entries doc)))]"

definition jsonOfShardInfo :: "ManifestShardInfo \<Rightarrow> json" where
  "jsonOfShardInfo info =
     JObj [(''path'', JStr (si_path info)),
           (''count'', JNum (si_count info)),
           (''updatedAt'', JNum (si_updatedAt info)),
           (''sha'', jsonOfString (si_sha info))]"

definition jsonOfManifest :: "MetaManifest \<Rightarrow> json" where
  "jsonOfManifest m =
     JObj [(''version'', JNum (mf_version m)),
           (''updatedAt'', JNum (mf_updatedAt m)),
           (''shards'', JObj (map (\<lambda>(k, info). (k, jsonOfShardInfo info)) (mf_shards m)))]"

text \<open>
  \<open>encode\<close> writes a value as JSON text, objects with their own properties in
  enumeration order; \<open>decode\<close> parses the text of a file and gives \<open>null\<close> when it is
  not JSON.
\<close>

definition decode :: "content \<Rightarrow> json option" where
  "decode c = (case c of JsonText v \<Rightarrow> Some v | Blob b \<Rightarrow> None)"

subsection \<open>Normalisation\<close>

definition normalizeManifest :: "int \<Rightarrow> json option \<Rightarrow> MetaManifest" where
  "normalizeManifest now input =
     \<lparr> mf_version = toNumber (jfield input ''version'') MANIFEST_VERSION,
       mf_updatedAt = toNumber (jfield input ''updatedAt'') now,
       mf_shards =
         foldl (\<lambda>shards (key, rawInfo).
                  if \<not> isObject rawInfo then shards
                  else
                    (let bucket = sanitizeBucket key;
                         path = (case jfield (Some rawInfo) ''path'' of
                                   Some (JStr p) \<Rightarrow> if p \<noteq> [] then p else getShardPath bucket
                                 | _ \<Rightarrow> getShardPath bucket);
                         count = toNumber (jfield (Some rawInfo) ''count'') 0;
                         updatedAt = toNumber (jfield (Some rawInfo) ''updatedAt'') 0;
                         sha = (case jfield (Some rawInfo) ''sha'' of Some (JStr s) \<Rightarrow> Some s | _ \<Rightarrow> None)
                     in assignProp bucket
                          \<lparr> si_path = path, si_count = count, si_updatedAt = updatedAt, si_sha = sha \<rparr>
                          shards))
               []
               (case jfield input ''shards'' of
                  Some v \<Rightarrow> if isObject v then objectEntries (Some v) else []
                | None \<Rightarrow> []) \<rparr>"

text \<open>One entry of a shard document: \<open>None\<close> where the loop says \<open>continue\<close>.\<close>

definition normalizeShardEntry :: "int \<Rightarrow> string \<Rightarrow> json \<Rightarrow> MetaShardEntry option" where
  "normalizeShardEntry now key rawValue =
     (if \<not> isObject rawValue then None
      else
        (let raw = Some rawValue;
             fingerprint = (case jfield raw ''fingerprint'' of
                              Some (JStr f) \<Rightarrow> if f \<noteq> [] then f else key
                            | _ \<Rightarrow> key)
         in if fingerprint = [] then None
            else (case toOptionalString (jfield raw ''repoPath'') of
                    None \<Rightarrow> None
                  | Some repoPath \<Rightarrow>
                      Some \<lparr> me_fingerprint = fingerprint,
                             me_repoPath = repoPath,
                             me_previewRepoPath = toOptionalString (jfield raw ''previewRepoPath''),
                             me_createdAt = toNullableNumber (jfield raw ''createdAt''),
                             me_fileSize = toNullableNumber (jfield raw ''fileSize''),
                             me_contentHash = toOptionalString (jfield raw ''contentHash''),
                             me_uploadedAt = toNullableNumber (jfield raw ''uploadedAt''),
                             me_assetId = toOptionalString (jfield raw ''assetId''),
                             se_updatedAt = toNumber (jfield raw ''updatedAt'') now \<rparr>)))"

text \<open>
  The assignment \<open>entries[fingerprint] = value\<close> to the \<open>entries\<close> object of a shard
  document, given as its own properties and its prototype.
\<close>

definition assignEntry ::
  "string \<Rightarrow> MetaShardEntry \<Rightarrow> (string \<times> MetaShardEntry) list \<times> MetaShardEntry option
     \<Rightarrow> (string \<times> MetaShardEntry) list \<times> MetaShardEntry option" where
  "assignEntry k v obj =
     (case obj of (own, proto) \<Rightarrow>
        if k = ''__proto__'' then (own, Some v) else (setProp k v own, proto))"

definition normalizeShardEntries ::
  "int \<Rightarrow> (string \<times> json) list \<Rightarrow> (string \<times> MetaShardEntry) list \<times> MetaShardEntry option" where
  "normalizeShardEntries now kvs =
     foldl (\<lambda>entries (key, rawValue).
              case normalizeShardEntry now key rawValue of
                None \<Rightarrow> entries
              | Some e \<Rightarrow> assignEntry (me_fingerprint e) e entries)
           ([], None) kvs"

definition normalizeShardDocument :: "int \<Rightarrow> string \<Rightarrow> json option \<Rightarrow> MetaShardDocument" where
  "normalizeShardDocument now bucket input =
     (let entries = (case jfield input ''entries'' of
                       Some v \<Rightarrow> if isObject v then normalizeShardEntries now (objectEntries (Some v))
                                 else ([], None)
                     | None \<Rightarrow> ([], None))
      in \<lparr> sd_version = toNumber (jfield input ''version'') SHARD_VERSION,
           sd_bucket = (case jfield input ''bucket'' of
                          Some (JStr b) \<Rightarrow> if b \<noteq> [] then sanitizeBucket b else sanitizeBucket bucket
                        | _ \<Rightarrow> sanitizeBucket bucket),
           sd_generatedAt = toNumber (jfield input ''generatedAt'') now,
           sd_entries = fst entries,
           sd_proto = snd entries \<rparr>)"

definition makeEmptyShard :: "int \<Rightarrow> string \<Rightarrow> MetaShardDocument" where
  "makeEmptyShard now bucket =
     \<lparr> sd_version = SHARD_VERSION, sd_bucket = sanitizeBucket bucket, sd_generatedAt = now,
       sd_entries = [], sd_proto = None \<rparr>"


section \<open>Local durable index (localStore.ts) and orchestrator state (sync/index.ts)\<close>

record AssetRecord =
  ar_fingerprint :: string
  ar_assetId :: "string option"
  ar_repoPath :: "string option"
  ar_uploaded :: bool
  ar_fileSize :: "int option"
  ar_createdAt :: "int option"
  ar_contentHash :: "string option"
  ar_previewHash :: "string option"
  ar_lastSeenAt :: "int option"
  ar_lastUploadedAt :: "int option"
  ar_lastError :: "string option"

text \<open>The tables \<open>assets\<close> (keyed by fingerprint) and \<open>auto_sync_blocklist\<close>.\<close>

record LocalStore =
  ls_assets :: "(string \<times> AssetRecord) list"
  ls_blocklist :: "(string \<times> int) list"

datatype batchType = Upload | Delete | Download

record SyncStatus =
  st_running :: bool
  st_pendingUploads :: int
  st_completedUploads :: int
  st_isDeleting :: bool
  st_lastBatchTotal :: int
  st_lastBatchUploaded :: int
  st_lastBatchType :: "batchType option"
  st_lastError :: "string option"

record UploadIndexEntry =
  ui_uploaded :: bool
  ui_repoPath :: "string option"
  ui_fileSize :: "int option"
  ui_creationTime :: "int option"
  ui_fingerprint :: string
  ui_contentHash :: "string option"
  ui_lastSeenAt :: "int option"
  ui_lastUploadedAt :: "int option"
  ui_lastError :: "string option"

record CompletionEvent =
  ce_type :: batchType
  ce_total :: int
  ce_failed :: int
  ce_timestamp :: int

record PreparedAsset =
  pa_asset :: Asset
  pa_localUri :: string
  pa_repoPath :: string
  pa_fingerprint :: string
  pa_creationTime :: "int option"
  pa_fileSize :: "int option"
  pa_contentBase64 :: string
  pa_contentHash :: "string option"

text \<open>What the emitters have emitted, in order, and what was asked of the device library.\<close>

datatype signal =
    UploadIndexChanged
  | SyncStatusChanged
  | CacheInvalidated
  | Completion CompletionEvent

record SyncState =
  ss_uploadIndexCache :: "(string \<times> UploadIndexEntry) list"
  ss_syncStatus :: SyncStatus
  ss_lastCompletion :: "CompletionEvent option"
  ss_metaReady :: bool
  ss_autoSyncBlocklist :: "string list"
  ss_autoSyncBlocklistLoaded :: bool
  ss_activeCancelToken :: "bool option"
  ss_signals :: "signal list"
  ss_deviceDeleted :: "string list"

text \<open>
  Everything an operation can read or change: the remote repository, the metadata
  module's state, the local database and the orchestrator's module state. An operation
  returns a value or throws, and leaves a state either way. The time read by
  \<open>Date.now()\<close> is a parameter of each operation.
\<close>

record World =
  w_remote :: Remote
  w_meta :: MetaState
  w_store :: LocalStore
  w_sync :: SyncState

type_synonym 'a io = "World \<Rightarrow> (error + 'a) \<times> World"

definition ret :: "'a \<Rightarrow> 'a io" where
  "ret x = (\<lambda>w. (Inr x, w))"

definition throw :: "error \<Rightarrow> 'a io" where
  "throw e = (\<lambda>w. (Inl e, w))"

definition andThen :: "'a io \<Rightarrow> ('a \<Rightarrow> 'b io) \<Rightarrow> 'b io" where
  "andThen m f = (\<lambda>w. case m w of (Inl e, w') \<Rightarrow> (Inl e, w') | (Inr x, w') \<Rightarrow> f x w')"

definition modify :: "(World \<Rightarrow> World) \<Rightarrow> unit io" where
  "modify f = (\<lambda>w. (Inr (), f w))"

definition gets :: "(World \<Rightarrow> 'a) \<Rightarrow> 'a io" where
  "gets f = (\<lambda>w. (Inr (f w), w))"

text \<open>Sequencing over a list, as a \<open>for\<close> loop with \<open>await\<close> in its body.\<close>

fun forEach :: "'a list \<Rightarrow> ('a \<Rightarrow> unit io) \<Rightarrow> unit io" where
  "forEach [] body = ret ()"
| "forEach (x # xs) body = andThen (body x) (\<lambda>u. forEach xs body)"

definition onRemote :: "(Remote \<Rightarrow> (error + 'a) \<times> Remote) \<Rightarrow> 'a io" where
  "onRemote f = (\<lambda>w. case f (w_remote w) of (res, r') \<Rightarrow> (res, w\<lparr> w_remote := r' \<rparr>))"

definition modifyMeta :: "(MetaState \<Rightarrow> MetaState) \<Rightarrow> unit io" where
  "modifyMeta f = modify (\<lambda>w. w\<lparr> w_meta := f (w_meta w) \<rparr>)"

section \<open>Sharded remote metadata store: the reverse indices (metaIndex.ts)\<close>

definition setAdd :: "string \<Rightarrow> string list \<Rightarrow> string list" where
  "setAdd x xs = (if x \<in> set xs then xs else xs @ [x])"

text \<open>\<open>registerPaths\<close>; a null or empty path is skipped.\<close>

definition registerPaths :: "string \<Rightarrow> string option list \<Rightarrow> MetaState \<Rightarrow> MetaState" where
  "registerPaths fingerprint paths ms =
     (let valid = filter (\<lambda>p. p \<noteq> []) (concat (map (\<lambda>p. case p of Some s \<Rightarrow> [s] | None \<Rightarrow> []) paths));
          pathSet = foldl (\<lambda>s p. setAdd p s) [] valid
      in ms\<lparr> ms_pathToFingerprint :=
                foldl (\<lambda>m p. AList.update p fingerprint m) (ms_pathToFingerprint ms) valid,
              ms_fingerprintToPaths :=
                (if pathSet \<noteq> [] then AList.update fingerprint pathSet (ms_fingerprintToPaths ms)
                 else AList.delete fingerprint (ms_fingerprintToPaths ms)) \<rparr>)"

definition removeEntryFromCache :: "string \<Rightarrow> MetaState \<Rightarrow> MetaState" where
  "removeEntryFromCache fingerprint ms =
     (let b2f = (case map_of (ms_fingerprintToBucket ms) fingerprint of
                   None \<Rightarrow> ms_bucketToFingerprints ms
                 | Some bucket \<Rightarrow>
                     if bucket = [] then ms_bucketToFingerprints ms
                     else (case map_of (ms_bucketToFingerprints ms) bucket of
                             None \<Rightarrow> ms_bucketToFingerprints ms
                           | Some fps \<Rightarrow>
                               (let fps' = removeAll fingerprint fps
                                in if fps' = [] then AList.delete bucket (ms_bucketToFingerprints ms)
                                   else AList.update bucket fps' (ms_bucketToFingerprints ms))));
          paths = map_of (ms_fingerprintToPaths ms) fingerprint
      in ms\<lparr> ms_metaByFingerprint := AList.delete fingerprint (ms_metaByFingerprint ms),
              ms_bucketToFingerprints := b2f,
              ms_fingerprintToBucket := AList.delete fingerprint (ms_fingerprintToBucket ms),
              ms_pathToFingerprint :=
                (case paths of
                   None \<Rightarrow> ms_pathToFingerprint ms
                 | Some ps \<Rightarrow> foldl (\<lambda>m p. AList.delete p m) (ms_pathToFingerprint ms) ps),
              ms_fingerprintToPaths :=
                (case paths of
                   None \<Rightarrow> ms_fingerprintToPaths ms
                 | Some ps \<Rightarrow> AList.delete fingerprint (ms_fingerprintToPaths ms)) \<rparr>)"

definition evictBucketEntries :: "string \<Rightarrow> MetaState \<Rightarrow> MetaState" where
  "evictBucketEntries bucket ms =
     (case map_of (ms_bucketToFingerprints ms) bucket of
        None \<Rightarrow> ms
      | Some fingerprints \<Rightarrow> foldl (\<lambda>m fp. removeEntryFromCache fp m) ms fingerprints)"

definition ingestEntry :: "string \<Rightarrow> MetaState \<times> string list \<Rightarrow> MetaShardEntry \<Rightarrow> MetaState \<times> string list" where
  "ingestEntry bucket acc entry =
     (case acc of (ms, bucketSet) \<Rightarrow>
        if me_fingerprint entry = [] then (ms, bucketSet)
        else
          (registerPaths (me_fingerprint entry) [Some (me_repoPath entry), me_previewRepoPath entry]
             (ms\<lparr> ms_metaByFingerprint := AList.update (me_fingerprint entry) entry (ms_metaByFingerprint ms),
                  ms_fingerprintToBucket := AList.update (me_fingerprint entry) bucket (ms_fingerprintToBucket ms) \<rparr>),
           setAdd (me_fingerprint entry) bucketSet))"

definition ingestShardDocument :: "MetaShardDocument \<Rightarrow> MetaState \<Rightarrow> MetaState" where
  "ingestShardDocument doc ms =
     (case foldl (ingestEntry (sd_bucket doc)) (evictBucketEntries (sd_bucket doc) ms, [])
                 (map snd (sd_entries doc)) of
        (ms', bucketSet) \<Rightarrow>
          ms'\<lparr> ms_bucketToFingerprints :=
                 (if bucketSet \<noteq> [] then AList.update (sd_bucket doc) bucketSet (ms_bucketToFingerprints ms')
                  else AList.delete (sd_bucket doc) (ms_bucketToFingerprints ms')) \<rparr>)"

definition getMetaEntryFromCache :: "MetaState \<Rightarrow> string \<Rightarrow> MetaShardEntry option" where
  "getMetaEntryFromCache ms fingerprintOrPath =
     (case map_of (ms_metaByFingerprint ms) fingerprintOrPath of
        Some direct \<Rightarrow> Some direct
      | None \<Rightarrow>
          (case map_of (ms_pathToFingerprint ms) fingerprintOrPath of
             None \<Rightarrow> None
           | Some resolved \<Rightarrow> if resolved = [] then None else map_of (ms_metaByFingerprint ms) resolved))"

definition invalidateMetaCache :: "MetaState \<Rightarrow> MetaState" where
  "invalidateMetaCache ms = emptyMetaState"

definition markManifestEntry :: "string \<Rightarrow> ShardCacheEntry option \<Rightarrow> Cache \<Rightarrow> Cache" where
  "markManifestEntry bucket shard state =
     (case shard of
        None \<Rightarrow> state\<lparr> c_manifest := (c_manifest state)
                  \<lparr> mf_shards := AList.delete bucket (mf_shards (c_manifest state)) \<rparr> \<rparr>
      | Some sh \<Rightarrow> state\<lparr> c_manifest := (c_manifest state)
                  \<lparr> mf_shards := assignProp bucket
                       \<lparr> si_path = sc_path sh, si_count = sc_count sh,
                         si_updatedAt = sc_updatedAt sh, si_sha = sc_sha sh \<rparr>
                       (mf_shards (c_manifest state)) \<rparr> \<rparr>)"

text \<open>Access to the cache object and to the shard objects held in its \<open>shards\<close> map.\<close>

definition modifyCache :: "(Cache \<Rightarrow> Cache) \<Rightarrow> unit io" where
  "modifyCache f = modifyMeta (\<lambda>ms. ms\<lparr> ms_cache := map_option f (ms_cache ms) \<rparr>)"

definition storeShard :: "string \<Rightarrow> ShardCacheEntry \<Rightarrow> unit io" where
  "storeShard key shard = modifyCache (\<lambda>c. c\<lparr> c_shards := AList.update key shard (c_shards c) \<rparr>)"

definition entryCount :: "MetaShardDocument \<Rightarrow> int" where
  "entryCount doc = int (length (sd_entries doc))"

section \<open>Sharded remote metadata store: loading and persisting (metaIndex.ts)\<close>

definition fetchManifest :: "int \<Rightarrow> (MetaManifest \<times> string option) io" where
  "fetchManifest now =
     (\<lambda>w. case getContent (w_remote w) META_MANIFEST_PATH of
            Inl e \<Rightarrow> (Inl e, w)
          | Inr (Listing items) \<Rightarrow> (Inr (normalizeManifest now None, None), w)
          | Inr (FileData sha c) \<Rightarrow> (Inr (normalizeManifest now (decode c), Some sha), w))"

definition writeManifest :: "MetaManifest \<Rightarrow> string option \<Rightarrow> string option io" where
  "writeManifest manifest sha =
     andThen
       (onRemote (\<lambda>r. createOrUpdateFileContents r META_MANIFEST_PATH
                         (JsonText (jsonOfManifest (manifest\<lparr> mf_version := MANIFEST_VERSION \<rparr>))) sha))
       (\<lambda>newSha. ret (Some newSha))"

definition fetchShardDocument :: "int \<Rightarrow> string \<Rightarrow> string \<Rightarrow> (MetaShardDocument \<times> string option) io" where
  "fetchShardDocument now bucket path =
     (\<lambda>w. case getContent (w_remote w) path of
            Inr (Listing items) \<Rightarrow> (Inr (makeEmptyShard now bucket, None), w)
          | Inr (FileData sha c) \<Rightarrow> (Inr (normalizeShardDocument now bucket (decode c), Some sha), w)
          | Inl NotFound \<Rightarrow> (Inr (makeEmptyShard now bucket, None), w)
          | Inl e \<Rightarrow> (Inl e, w))"

text \<open>
  \<open>persistShard\<close> works on the shard object stored under \<open>key\<close>; the document is
  stamped before the write is attempted, the other fields after it succeeded.
\<close>

definition persistShard :: "int \<Rightarrow> string \<Rightarrow> ShardCacheEntry \<Rightarrow> (ShardCacheEntry \<times> MetaShardDocument) io" where
  "persistShard now key shard =
     (let doc0 = (case sc_doc shard of Some d \<Rightarrow> d | None \<Rightarrow> makeEmptyShard now (sc_bucket shard));
          doc = doc0\<lparr> sd_bucket := sanitizeBucket (sc_bucket shard), sd_version := SHARD_VERSION,
                      sd_generatedAt := now \<rparr>;
          stamped = shard\<lparr> sc_doc := Some doc \<rparr>
      in andThen (storeShard key stamped) (\<lambda>u.
         andThen (onRemote (\<lambda>r. createOrUpdateFileContents r (sc_path shard)
                                  (JsonText (jsonOfShard doc)) (sc_sha shard))) (\<lambda>newSha.
         (let written = stamped\<lparr> sc_sha := Some newSha, sc_count := entryCount doc,
                                  sc_updatedAt := sd_generatedAt doc, sc_loaded := True \<rparr>
          in andThen (storeShard key written) (\<lambda>u. ret (written, doc))))))"

definition deleteShardFile :: "ShardCacheEntry \<Rightarrow> unit io" where
  "deleteShardFile shard =
     (case sc_sha shard of
        None \<Rightarrow> ret ()
      | Some sha \<Rightarrow>
          if sha = [] then ret ()
          else onRemote (\<lambda>r. deleteFileContents r (sc_path shard) sha))"

text \<open>
  \<open>listShardFiles\<close>: the walk of the metadata directory. The remote is a tree, so the
  answer to the request for a listed item is that item; \<open>walkNode\<close> is the walk of a
  path whose answer is the given node.
\<close>

fun walkNode :: "string \<Rightarrow> node \<Rightarrow> (string \<times> string) list" where
  "walkNode path (File sha c) =
     (case bucketFromShardFilePath (Some path) of Some bucket \<Rightarrow> [(bucket, path)] | None \<Rightarrow> [])"
| "walkNode path (Dir items) =
     concat (map (\<lambda>entry. walkNode (path @ ''/'' @ fst entry) (snd entry)) items)"

definition listShardFiles :: "Remote \<Rightarrow> (string \<times> string) list" where
  "listShardFiles r =
     (case lookupPath (splitPath META_ROOT) (rm_root r) of
        None \<Rightarrow> []
      | Some nd \<Rightarrow> walkNode META_ROOT nd)"

text \<open>The loop body of \<open>buildManifestFromExistingShards\<close>; the state of the loop is the manifest and the local map of shards.\<close>

definition buildStep ::
  "int \<Rightarrow> MetaManifest \<times> (string \<times> ShardCacheEntry) list \<Rightarrow> string \<times> string
     \<Rightarrow> (MetaManifest \<times> (string \<times> ShardCacheEntry) list) io" where
  "buildStep now acc file =
     (case acc of (manifest, shards) \<Rightarrow>
      case file of (bucket, path) \<Rightarrow>
        andThen (fetchShardDocument now bucket path) (\<lambda>(doc, sha).
          (let shard = \<lparr> sc_bucket = sd_bucket doc, sc_path = path, sc_sha = sha,
                         sc_count = entryCount doc, sc_updatedAt = sd_generatedAt doc,
                         sc_doc = Some doc, sc_loaded = True \<rparr>
           in andThen (modifyMeta (ingestShardDocument doc)) (\<lambda>u.
              ret (manifest\<lparr> mf_shards := assignProp (sd_bucket doc)
                              \<lparr> si_path = path, si_count = sc_count shard,
                                si_updatedAt = sc_updatedAt shard, si_sha = sc_sha shard \<rparr>
                              (mf_shards manifest) \<rparr>,
                   AList.update (sd_bucket doc) shard shards)))))"

fun buildLoop ::
  "int \<Rightarrow> (string \<times> string) list \<Rightarrow> MetaManifest \<times> (string \<times> ShardCacheEntry) list
     \<Rightarrow> (MetaManifest \<times> (string \<times> ShardCacheEntry) list) io" where
  "buildLoop now [] acc = ret acc"
| "buildLoop now (file # files) acc = andThen (buildStep now acc file) (buildLoop now files)"

definition buildManifestFromExistingShards ::
  "int \<Rightarrow> (MetaManifest \<times> (string \<times> ShardCacheEntry) list) io" where
  "buildManifestFromExistingShards now =
     andThen (gets (\<lambda>w. listShardFiles (w_remote w))) (\<lambda>files.
       buildLoop now files
         (\<lparr> mf_version = MANIFEST_VERSION, mf_updatedAt = now, mf_shards = [] \<rparr>, []))"

definition shardFromManifestRow :: "string \<times> ManifestShardInfo \<Rightarrow> string \<times> ShardCacheEntry" where
  "shardFromManifestRow row =
     (case row of (bucket, info) \<Rightarrow>
        (bucket, \<lparr> sc_bucket = bucket, sc_path = si_path info, sc_sha = si_sha info,
                   sc_count = si_count info, sc_updatedAt = si_updatedAt info,
                   sc_doc = None, sc_loaded = False \<rparr>))"

definition ensureBaseState :: "int \<Rightarrow> Cache io" where
  "ensureBaseState now =
     (\<lambda>w. case ms_cache (w_meta w) of
            Some c \<Rightarrow> (Inr c, w)
          | None \<Rightarrow>
             (let w0 = w\<lparr> w_meta := emptyMetaState \<rparr>
              in case fetchManifest now w0 of
                   (Inl NotFound, w1) \<Rightarrow>
                     andThen (buildManifestFromExistingShards now) (\<lambda>(manifest, existing).
                     andThen (writeManifest manifest None) (\<lambda>manifestSha.
                       (let shards = foldl (\<lambda>m sh. AList.update (sc_bucket sh) sh m) [] (map snd existing);
                            c = \<lparr> c_manifest = manifest, c_manifestSha = manifestSha,
                                  c_shards = shards, c_fetchedAt = now \<rparr>
                        in andThen (modifyMeta (\<lambda>ms. ms\<lparr> ms_cache := Some c \<rparr>)) (\<lambda>u. ret c)))) w1
                 | (Inl e, w1) \<Rightarrow> (Inl e, w1)
                 | (Inr (fetched, sha), w1) \<Rightarrow>
                     (let manifest = normalizeManifest now (Some (jsonOfManifest fetched));
                          shards = foldl (\<lambda>m row. AList.update (fst row) (snd row) m) []
                                     (map shardFromManifestRow (mf_shards manifest));
                          c = \<lparr> c_manifest = manifest, c_manifestSha = sha,
                                c_shards = shards, c_fetchedAt = now \<rparr>
                      in andThen (modifyMeta (\<lambda>ms. ms\<lparr> ms_cache := Some c \<rparr>)) (\<lambda>u. ret c)) w1))"

text \<open>\<open>ensureShardLoaded\<close> returns the key of the shard in the cache together with the shard object.\<close>

definition ensureShardLoaded :: "int \<Rightarrow> string \<Rightarrow> (string \<times> ShardCacheEntry) io" where
  "ensureShardLoaded now bucket =
     andThen (ensureBaseState now) (\<lambda>state.
       (let key = sanitizeBucket bucket;
            shard0 = (case map_of (c_shards state) key of
                        Some sh \<Rightarrow> sh
                      | None \<Rightarrow> \<lparr> sc_bucket = key, sc_path = getShardPath key, sc_sha = None,
                                   sc_count = 0, sc_updatedAt = 0, sc_doc = None, sc_loaded = False \<rparr>)
        in andThen (storeShard key shard0) (\<lambda>u.
           if sc_loaded shard0 \<and> sc_doc shard0 \<noteq> None then ret (key, shard0)
           else
             andThen (fetchShardDocument now key (sc_path shard0)) (\<lambda>(doc, sha).
               (let shard = shard0\<lparr> sc_doc := Some doc, sc_sha := sha, sc_count := entryCount doc,
                                     sc_updatedAt := sd_generatedAt doc, sc_loaded := True \<rparr>
                in andThen (storeShard key shard) (\<lambda>u.
                   andThen (modifyMeta (if 0 < sc_count shard then ingestShardDocument doc
                                        else evictBucketEntries key)) (\<lambda>u.
                   andThen (modifyCache (markManifestEntry key (Some shard))) (\<lambda>u.
                   ret (key, shard)))))))))"

section \<open>Sharded remote metadata store: preloading and mutation (metaIndex.ts)\<close>

text \<open>A stable sort by a comparator; \<open>le a b\<close> says that the comparator does not put \<open>b\<close> before \<open>a\<close>.\<close>

fun insertBy :: "('a \<Rightarrow> 'a \<Rightarrow> bool) \<Rightarrow> 'a \<Rightarrow> 'a list \<Rightarrow> 'a list" where
  "insertBy le x [] = [x]"
| "insertBy le x (y # ys) = (if le x y then x # y # ys else y # insertBy le x ys)"

definition sortBy :: "('a \<Rightarrow> 'a \<Rightarrow> bool) \<Rightarrow> 'a list \<Rightarrow> 'a list" where
  "sortBy le xs = foldr (insertBy le) xs []"

text \<open>Comparison of bucket names (\<open>localeCompare\<close> on the ASCII names that buckets are).\<close>

fun strLe :: "string \<Rightarrow> string \<Rightarrow> bool" where
  "strLe [] b = True"
| "strLe (x # a) [] = False"
| "strLe (x # a) (y # b) =
     (if (of_char x :: nat) < of_char y then True
      else if (of_char y :: nat) < of_char x then False
      else strLe a b)"

definition sortBucketsByFreshness :: "ShardCacheEntry list \<Rightarrow> string list" where
  "sortBucketsByFreshness shards =
     map sc_bucket
       (sortBy (\<lambda>a b. sc_updatedAt b < sc_updatedAt a
                       \<or> (sc_updatedAt a = sc_updatedAt b \<and> strLe (sc_bucket b) (sc_bucket a)))
               shards)"

definition cachedEntryCount :: "World \<Rightarrow> nat" where
  "cachedEntryCount w = length (ms_metaByFingerprint (w_meta w))"

definition lookupShard :: "string \<Rightarrow> World \<Rightarrow> ShardCacheEntry option" where
  "lookupShard key w = (case ms_cache (w_meta w) of None \<Rightarrow> None | Some c \<Rightarrow> map_of (c_shards c) key)"

fun preloadLoop :: "int \<Rightarrow> nat \<Rightarrow> string list \<Rightarrow> unit io" where
  "preloadLoop now targetEntries [] = ret ()"
| "preloadLoop now targetEntries (bucket # rest) =
     andThen (gets cachedEntryCount) (\<lambda>size.
       if targetEntries \<le> size then ret ()
       else andThen (gets (lookupShard bucket)) (\<lambda>shard.
         case shard of
           None \<Rightarrow> preloadLoop now targetEntries rest
         | Some sh \<Rightarrow>
             if \<not> sc_loaded sh
             then andThen (ensureShardLoaded now bucket) (\<lambda>r. preloadLoop now targetEntries rest)
             else (case sc_doc sh of
                     Some doc \<Rightarrow> andThen (modifyMeta (ingestShardDocument doc))
                                   (\<lambda>u. preloadLoop now targetEntries rest)
                   | None \<Rightarrow> preloadLoop now targetEntries rest)))"

definition preloadRecentShards :: "int \<Rightarrow> nat \<Rightarrow> unit io" where
  "preloadRecentShards now targetEntries =
     andThen (ensureBaseState now) (\<lambda>state.
     andThen (gets cachedEntryCount) (\<lambda>size.
       if targetEntries \<le> size then ret ()
       else preloadLoop now targetEntries (sortBucketsByFreshness (map snd (c_shards state)))))"

definition loadMetaIndex :: "int \<Rightarrow> Cache io" where
  "loadMetaIndex now =
     andThen (ensureBaseState now) (\<lambda>state.
     andThen (preloadRecentShards now DEFAULT_PRELOAD_TARGET) (\<lambda>u. ret state))"

text \<open>\<open>removeMetaEntries\<close>: grouping the fingerprints by bucket.\<close>

definition groupFingerprints :: "MetaState \<Rightarrow> string list \<Rightarrow> (string \<times> string list) list" where
  "groupFingerprints ms fingerprints =
     foldl (\<lambda>grouped fingerprint.
              (let bucket = (case map_of (ms_fingerprintToBucket ms) fingerprint of
                               Some b \<Rightarrow> b
                             | None \<Rightarrow> bucketFromFingerprint fingerprint);
                   key = sanitizeBucket bucket;
                   fps = (case map_of grouped key of Some l \<Rightarrow> l | None \<Rightarrow> [])
               in AList.update key (fps @ [fingerprint]) grouped))
           [] fingerprints"

text \<open>
  The test \<open>if (shard.doc.entries[fingerprint])\<close>: the value is looked up among the own
  properties of the object and then along its prototype chain, and it passes when the
  value is truthy. Own properties are entries, hence truthy. When an assignment to
  \<open>__proto__\<close> has made an entry the prototype, the fields of that entry are inherited:
  a text is truthy when it is not empty, a number when it is not 0, null is not. After it
  come the properties of \<open>Object.prototype\<close>.
\<close>

definition entryFieldTruthy :: "MetaShardEntry \<Rightarrow> string \<Rightarrow> bool" where
  "entryFieldTruthy e name =
     (if name = ''fingerprint'' then me_fingerprint e \<noteq> []
      else if name = ''repoPath'' then me_repoPath e \<noteq> []
      else if name = ''previewRepoPath'' then me_previewRepoPath e \<noteq> None \<and> me_previewRepoPath e \<noteq> Some []
      else if name = ''createdAt'' then me_createdAt e \<noteq> None \<and> me_createdAt e \<noteq> Some 0
      else if name = ''fileSize'' then me_fileSize e \<noteq> None \<and> me_fileSize e \<noteq> Some 0
      else if name = ''contentHash'' then me_contentHash e \<noteq> None \<and> me_contentHash e \<noteq> Some []
      else if name = ''uploadedAt'' then me_uploadedAt e \<noteq> None \<and> me_uploadedAt e \<noteq> Some 0
      else if name = ''assetId'' then me_assetId e \<noteq> None \<and> me_assetId e \<noteq> Some []
      else if name = ''updatedAt'' then se_updatedAt e \<noteq> 0
      else False)"

definition hasTruthyEntry ::
  "(string \<times> MetaShardEntry) list \<Rightarrow> MetaShardEntry option \<Rightarrow> string \<Rightarrow> bool" where
  "hasTruthyEntry own proto fingerprint =
     (if map_of own fingerprint \<noteq> None then True
      else if (case proto of Some e \<Rightarrow> entryFieldTruthy e fingerprint | None \<Rightarrow> False) then True
      else fingerprint \<in> set objectPrototypeKeys)"

text \<open>
  The inner loop over the fingerprints of one group: the own entries of the document, the
  indices, and \<open>changed\<close>; \<open>proto\<close> is the prototype of the entries object. \<open>delete\<close>
  removes an own property only.
\<close>

definition removeFromDoc ::
  "MetaShardEntry option \<Rightarrow> (string \<times> MetaShardEntry) list \<times> MetaState \<times> bool \<Rightarrow> string
     \<Rightarrow> (string \<times> MetaShardEntry) list \<times> MetaState \<times> bool" where
  "removeFromDoc proto acc fingerprint =
     (case acc of (entries, ms, changed) \<Rightarrow>
        if hasTruthyEntry entries proto fingerprint
        then (AList.delete fingerprint entries, removeEntryFromCache fingerprint ms, True)
        else (entries, ms, changed))"

definition removeGroup :: "int \<Rightarrow> bool \<Rightarrow> string \<times> string list \<Rightarrow> bool io" where
  "removeGroup now manifestDirty grp =
     (case grp of (bucket, fps) \<Rightarrow>
      andThen (ensureShardLoaded now bucket) (\<lambda>(key, shard).
        case sc_doc shard of
          None \<Rightarrow> ret manifestDirty
        | Some doc \<Rightarrow>
            andThen (gets w_meta) (\<lambda>ms.
              case foldl (removeFromDoc (sd_proto doc)) (sd_entries doc, ms, False) fps of
                (entries, ms', changed) \<Rightarrow>
                  (let doc1 = doc\<lparr> sd_entries := entries \<rparr>
                   in andThen (modifyMeta (\<lambda>m. ms')) (\<lambda>u.
                      andThen (storeShard key (shard\<lparr> sc_doc := Some doc1 \<rparr>)) (\<lambda>u.
                      if \<not> changed then ret manifestDirty
                      else
                        (let doc2 = doc1\<lparr> sd_generatedAt := now \<rparr>;
                             shard2 = shard\<lparr> sc_doc := Some doc2, sc_count := entryCount doc2,
                                             sc_updatedAt := now \<rparr>
                         in andThen (storeShard key shard2) (\<lambda>u.
                            if sc_count shard2 = 0 then
                              andThen (deleteShardFile shard2) (\<lambda>u.
                              andThen (modifyCache (\<lambda>c. c\<lparr> c_shards := AList.delete bucket (c_shards c) \<rparr>)) (\<lambda>u.
                              andThen (modifyMeta (evictBucketEntries bucket)) (\<lambda>u.
                              andThen (modifyCache (markManifestEntry bucket None)) (\<lambda>u.
                              ret True))))
                            else
                              andThen (persistShard now key shard2) (\<lambda>(shard3, doc3).
                              andThen (modifyMeta (ingestShardDocument doc3)) (\<lambda>u.
                              andThen (modifyCache (markManifestEntry bucket (Some shard3))) (\<lambda>u.
                              ret True)))))))))))"

fun removeGroups :: "int \<Rightarrow> (string \<times> string list) list \<Rightarrow> bool \<Rightarrow> bool io" where
  "removeGroups now [] manifestDirty = ret manifestDirty"
| "removeGroups now (grp # rest) manifestDirty =
     andThen (removeGroup now manifestDirty grp) (removeGroups now rest)"

text \<open>Persisting the cached manifest: \<open>state.manifest.updatedAt = Date.now()\<close>, the write, and the new SHA.\<close>

definition persistManifest :: "int \<Rightarrow> unit io" where
  "persistManifest now =
     andThen (modifyCache (\<lambda>c. c\<lparr> c_manifest := (c_manifest c)\<lparr> mf_updatedAt := now \<rparr> \<rparr>)) (\<lambda>u.
     andThen (gets (\<lambda>w. ms_cache (w_meta w))) (\<lambda>cache.
       case cache of
         None \<Rightarrow> ret ()
       | Some c \<Rightarrow>
           andThen (writeManifest (c_manifest c) (c_manifestSha c)) (\<lambda>sha.
             modifyCache (\<lambda>c. c\<lparr> c_manifestSha := sha \<rparr>))))"

definition removeMetaEntries :: "int \<Rightarrow> string list \<Rightarrow> unit io" where
  "removeMetaEntries now fingerprints =
     (if fingerprints = [] then ret ()
      else
        andThen (ensureBaseState now) (\<lambda>state.
        andThen (gets w_meta) (\<lambda>ms.
        andThen (removeGroups now (groupFingerprints ms fingerprints) False) (\<lambda>manifestDirty.
          if manifestDirty then persistManifest now else ret ()))))"

definition shardEntryOf :: "MetaEntry \<Rightarrow> int \<Rightarrow> MetaShardEntry" where
  "shardEntryOf entry updatedAt =
     \<lparr> me_fingerprint = me_fingerprint entry, me_repoPath = me_repoPath entry,
       me_previewRepoPath = me_previewRepoPath entry, me_createdAt = me_createdAt entry,
       me_fileSize = me_fileSize entry, me_contentHash = me_contentHash entry,
       me_uploadedAt = me_uploadedAt entry, me_assetId = me_assetId entry,
       se_updatedAt = updatedAt \<rparr>"


section \<open>Concrete states\<close>

definition emptyRemote :: Remote where
  "emptyRemote = \<lparr> rm_root = [], rm_nextSha = 0, rm_log = [] \<rparr>"

definition emptyStore :: LocalStore where
  "emptyStore = \<lparr> ls_assets = [], ls_blocklist = [] \<rparr>"

definition initialSyncStatus :: SyncStatus where
  "initialSyncStatus =
     \<lparr> st_running = False, st_pendingUploads = 0, st_completedUploads = 0, st_isDeleting = False,
       st_lastBatchTotal = 0, st_lastBatchUploaded = 0, st_lastBatchType = None, st_lastError = None \<rparr>"

definition initialSyncState :: SyncState where
  "initialSyncState =
     \<lparr> ss_uploadIndexCache = [], ss_syncStatus = initialSyncStatus, ss_lastCompletion = None,
       ss_metaReady = False, ss_autoSyncBlocklist = [], ss_autoSyncBlocklistLoaded = False,
       ss_activeCancelToken = None, ss_signals = [], ss_deviceDeleted = [] \<rparr>"

text \<open>The application right after start, against a given remote.\<close>

definition freshWorld :: "Remote \<Rightarrow> World" where
  "freshWorld r = \<lparr> w_remote = r, w_meta = emptyMetaState, w_store = emptyStore, w_sync = initialSyncState \<rparr>"

text \<open>The buckets of the cached manifest with their counts.\<close>

definition manifestCounts :: "World \<Rightarrow> (string \<times> int) list option" where
  "manifestCounts w =
     map_option (\<lambda>c. map (\<lambda>row. (fst row, si_count (snd row))) (mf_shards (c_manifest c)))
       (ms_cache (w_meta w))"

text \<open>A photo taken on 15 January 2024 (UTC), its meta entry and the shard document that holds it.\<close>

definition fingerprintA :: string where
  "fingerprintA = ''IMG_1.jpg|1705312800000|0''"

definition entryA1 :: MetaEntry where
  "entryA1 =
     \<lparr> me_fingerprint = fingerprintA, me_repoPath = pathA, me_previewRepoPath = None,
       me_createdAt = Some 1705312800000, me_fileSize = Some 4, me_contentHash = Some ''abc'',
       me_uploadedAt = Some 1705400000000, me_assetId = Some ''17'' \<rparr>"

definition shardDocA :: MetaShardDocument where
  "shardDocA =
     \<lparr> sd_version = 1, sd_bucket = ''2024-01-15'', sd_generatedAt = 1705400000000,
       sd_entries = [(fingerprintA, shardEntryOf entryA1 1705400000000)], sd_proto = None \<rparr>"

text \<open>
  Two remotes without a manifest that hold this shard document: one at the dated path
  that \<open>getShardPath\<close> gives for its bucket, one at the legacy path.
\<close>

definition remoteDated :: Remote where
  "remoteDated =
     \<lparr> rm_root = [(''gitgallery'', Dir [(''meta'', Dir [(''2024'', Dir [(''01'', Dir [(''15'',
                     Dir [(''meta_dict.json'', File ''sha0'' (JsonText (jsonOfShard shardDocA)))])])])])])],
       rm_nextSha = 1, rm_log = [] \<rparr>"

definition remoteLegacy :: Remote where
  "remoteLegacy =
     \<lparr> rm_root = [(''gitgallery'', Dir [(''meta'', Dir [(''shards'',
                     Dir [(''2024-01-15.json'', File ''sha0'' (JsonText (jsonOfShard shardDocA)))])])])],
       rm_nextSha = 1, rm_log = [] \<rparr>"




text \<open>
  Consistency of the documents held in the cache: as in an object, no key occurs twice,
  and every entry is stored under its own fingerprint.
\<close>

definition wfEntries :: "(string \<times> MetaShardEntry) list \<Rightarrow> bool" where
  "wfEntries es = (distinct (map fst es) \<and> list_all (\<lambda>kv. me_fingerprint (snd kv) = fst kv) es)"









section \<open>Properties of the fingerprint\<close>





















section \<open>Properties of cache eviction\<close>

lemma fileSize_nonneg: "0 \<le> fileSize e f"
  by (simp add: fileSize_def split: option.splits)

lemma statOf_size_nonneg: "0 \<le> st_size (statOf e m)"
  by (simp add: statOf_def fileSize_nonneg split: option.splits)

lemma entrySize_nonneg: "0 \<le> entrySize e"
  by (simp add: entrySize_def statOf_size_nonneg split: option.splits)

lemma statsOf_nonneg: "s \<in> set (statsOf es) \<Longrightarrow> 0 \<le> st_size s"
  by (auto simp: statsOf_def statOf_size_nonneg split: option.splits)

lemma sum_mset_snd_nonneg:
  fixes M :: "('a \<times> int) multiset"
  shows "(\<And>p. p \<in># M \<Longrightarrow> 0 \<le> snd p) \<Longrightarrow> 0 \<le> sum_mset (image_mset snd M)"
  by (induction M) auto

lemma sum_mset_snd_mono:
  fixes A B :: "('a \<times> int) multiset"
  assumes sub: "A \<subseteq># B" and nn: "\<And>p. p \<in># B \<Longrightarrow> 0 \<le> snd p"
  shows "sum_mset (image_mset snd A) \<le> sum_mset (image_mset snd B)"
proof -
  from sub have B: "B = A + (B - A)" by simp
  have "\<And>p. p \<in># B - A \<Longrightarrow> 0 \<le> snd p" using nn by (meson in_diffD)
  then have "0 \<le> sum_mset (image_mset snd (B - A))"
    by (rule sum_mset_snd_nonneg)
  moreover have "sum_mset (image_mset snd B) = sum_mset (image_mset snd A) + sum_mset (image_mset snd (B - A))"
    by (subst B) simp
  ultimately show ?thesis by simp
qed

lemma cacheSize_mset: "cacheSize fs = sum_mset (image_mset snd (image_mset entryPair (mset fs)))"
  by (simp add: cacheSize_def entryPair_def sum_mset_sum_list[symmetric] multiset.map_comp comp_def del: sum_mset_sum_list)

lemma stats_sum_mset: "sum_list (map st_size ss) = sum_mset (image_mset snd (image_mset statPair (mset ss)))"
  by (simp add: statPair_def sum_mset_sum_list[symmetric] multiset.map_comp comp_def del: sum_mset_sum_list)

lemma accounted_bound:
  assumes "accounted fs ss" and "\<And>s. s \<in> set ss \<Longrightarrow> 0 \<le> st_size s"
  shows "cacheSize fs \<le> sum_list (map st_size ss)"
  unfolding cacheSize_mset stats_sum_mset
  using assms by (intro sum_mset_snd_mono) (auto simp: accounted_def statPair_def)

lemma accounted_removeEntry:
  assumes "accounted fs (s # ss)" and "\<not> fails (st_dir s)"
  shows "accounted (removeEntry fails s fs) ss"
proof -
  let ?P = "\<lambda>p :: string \<times> int. fst p \<noteq> st_dir s"
  have "image_mset entryPair (mset (removeEntry fails s fs)) = filter_mset ?P (image_mset entryPair (mset fs))"
    using assms(2) by (simp add: removeEntry_def deleteAsync_def filter_mset_image_mset entryPair_def)
  also have "\<dots> \<subseteq># filter_mset ?P (image_mset statPair (mset (s # ss)))"
    using assms(1) unfolding accounted_def by (rule multiset_filter_mono)
  also have "filter_mset ?P (image_mset statPair (mset (s # ss))) = filter_mset ?P (image_mset statPair (mset ss))"
    by (simp add: statPair_def)
  also have "\<dots> \<subseteq># image_mset statPair (mset ss)"
    by (rule multiset_filter_subset)
  finally show ?thesis by (simp add: accounted_def)
qed

lemma PRUNE_TARGET_nonneg: "0 \<le> PRUNE_TARGET_BYTES"
  by (simp add: PRUNE_TARGET_BYTES_def CACHE_SIZE_LIMIT_BYTES_def)

lemma evictLoop_bound:
  "accounted fs ss \<Longrightarrow> (\<And>s. s \<in> set ss \<Longrightarrow> 0 \<le> st_size s) \<Longrightarrow> (\<And>s. s \<in> set ss \<Longrightarrow> \<not> fails (st_dir s))
   \<Longrightarrow> currentSize = sum_list (map st_size ss)
   \<Longrightarrow> cacheSize (evictLoop fails ss currentSize fs) \<le> PRUNE_TARGET_BYTES"
proof (induction ss arbitrary: currentSize fs)
  case Nil
  then have "fs = []" by (simp add: accounted_def)
  then show ?case by (simp add: cacheSize_def PRUNE_TARGET_nonneg)
next
  case (Cons s ss)
  show ?case
  proof (cases "currentSize \<le> PRUNE_TARGET_BYTES")
    case True
    have "cacheSize fs \<le> sum_list (map st_size (s # ss))"
      using Cons.prems(1,2) by (rule accounted_bound)
    with True Cons.prems(4) show ?thesis by simp
  next
    case False
    have "cacheSize (evictLoop fails ss (currentSize - st_size s) (removeEntry fails s fs)) \<le> PRUNE_TARGET_BYTES"
    proof (rule Cons.IH)
      show "accounted (removeEntry fails s fs) ss"
        using Cons.prems(1) Cons.prems(3)[of s] by (intro accounted_removeEntry) simp_all
      show "\<And>t. t \<in> set ss \<Longrightarrow> 0 \<le> st_size t" using Cons.prems(2) by simp
      show "\<And>t. t \<in> set ss \<Longrightarrow> \<not> fails (st_dir t)" using Cons.prems(3) by simp
      show "currentSize - st_size s = sum_list (map st_size ss)" using Cons.prems(4) by simp
    qed
    with False show ?thesis by simp
  qed
qed

lemma scan_total:
  "scanEntries fails now es (fs, t, ss) = (fs', t', ss') \<Longrightarrow> t' = t + cacheSize es \<and> ss' = ss @ statsOf es"
proof (induction es arbitrary: fs t ss)
  case Nil
  then show ?case by (simp add: cacheSize_def statsOf_def)
next
  case (Cons item rest)
  show ?case
  proof (cases "readManifest item")
    case None
    with Cons.prems have "scanEntries fails now rest (deleteAsync fails (ed_name item) fs, t, ss) = (fs', t', ss')"
      by simp
    from Cons.IH[OF this] None show ?thesis by (simp add: cacheSize_def statsOf_def entrySize_def)
  next
    case (Some m)
    with Cons.prems have "scanEntries fails now rest
        (if agedOut now m then removeEntry fails (statOf item m) fs else fs, t + st_size (statOf item m),
         ss @ [statOf item m])
        = (fs', t', ss')" by (simp add: Let_def)
    from Cons.IH[OF this] Some show ?thesis by (simp add: cacheSize_def statsOf_def entrySize_def)
  qed
qed

text \<open>What the first loop leaves of the directory.\<close>

lemma scan_fs:
  "scanEntries fails now es (fs, t, ss) = (fs', t', ss') \<Longrightarrow>
     fs' = filter (\<lambda>e. ed_name e \<notin> ed_name ` {x \<in> set es. mustGo now x \<and> \<not> fails (ed_name x)}) fs"
proof (induction es arbitrary: fs t ss)
  case Nil
  then show ?case by simp
next
  case (Cons item rest)
  let ?D = "ed_name ` {x \<in> set rest. mustGo now x \<and> \<not> fails (ed_name x)}"
  show ?case
  proof (cases "mustGo now item")
    case True
    have "\<exists>t1 ss1. scanEntries fails now rest (deleteAsync fails (ed_name item) fs, t1, ss1) = (fs', t', ss')"
      using Cons.prems True
      by (auto simp: mustGo_def Let_def removeEntry_def statOf_def split: option.splits)
    then obtain t1 ss1 where
      "scanEntries fails now rest (deleteAsync fails (ed_name item) fs, t1, ss1) = (fs', t', ss')" by blast
    from Cons.IH[OF this] have fs': "fs' = filter (\<lambda>e. ed_name e \<notin> ?D) (deleteAsync fails (ed_name item) fs)" .
    show ?thesis
    proof (cases "fails (ed_name item)")
      case f: True
      have "ed_name ` {x \<in> set (item # rest). mustGo now x \<and> \<not> fails (ed_name x)} = ?D"
        using f by auto
      with fs' f show ?thesis by (simp add: deleteAsync_def)
    next
      case f: False
      have "ed_name ` {x \<in> set (item # rest). mustGo now x \<and> \<not> fails (ed_name x)} = insert (ed_name item) ?D"
        using f True by auto
      with fs' f show ?thesis by (auto simp: deleteAsync_def intro: filter_cong)
    qed
  next
    case False
    have "\<exists>t1 ss1. scanEntries fails now rest (fs, t1, ss1) = (fs', t', ss')"
      using Cons.prems False
      by (auto simp: mustGo_def Let_def split: option.splits)
    then obtain t1 ss1 where "scanEntries fails now rest (fs, t1, ss1) = (fs', t', ss')" by blast
    from Cons.IH[OF this] have fs': "fs' = filter (\<lambda>e. ed_name e \<notin> ?D) fs" .
    have "ed_name ` {x \<in> set (item # rest). mustGo now x \<and> \<not> fails (ed_name x)} = ?D"
      using False by auto
    with fs' show ?thesis by simp
  qed
qed

text \<open>What the second loop leaves, and where it stops.\<close>

lemma evictLoop_exact:
  "\<exists>k\<le>length ss.
      evictLoop fails ss c fs = filter (\<lambda>e. fails (ed_name e) \<or> ed_name e \<notin> st_dir ` set (take k ss)) fs
    \<and> (\<forall>j<k. PRUNE_TARGET_BYTES < c - sum_list (map st_size (take j ss)))
    \<and> (k = length ss \<or> c - sum_list (map st_size (take k ss)) \<le> PRUNE_TARGET_BYTES)"
proof (induction ss arbitrary: c fs)
  case Nil
  show ?case by simp
next
  case (Cons s ss)
  show ?case
  proof (cases "c \<le> PRUNE_TARGET_BYTES")
    case True
    then have "evictLoop fails (s # ss) c fs
                 = filter (\<lambda>e. fails (ed_name e) \<or> ed_name e \<notin> st_dir ` set (take 0 (s # ss))) fs
      \<and> (\<forall>j<0. PRUNE_TARGET_BYTES < c - sum_list (map st_size (take j (s # ss))))
      \<and> (0 = length (s # ss) \<or> c - sum_list (map st_size (take 0 (s # ss))) \<le> PRUNE_TARGET_BYTES)"
      by simp
    then show ?thesis by blast
  next
    case False
    from Cons.IH[of "c - st_size s" "removeEntry fails s fs"] obtain k where
      k: "k \<le> length ss"
      and r: "evictLoop fails ss (c - st_size s) (removeEntry fails s fs)
               = filter (\<lambda>e. fails (ed_name e) \<or> ed_name e \<notin> st_dir ` set (take k ss)) (removeEntry fails s fs)"
      and b: "\<forall>j<k. PRUNE_TARGET_BYTES < c - st_size s - sum_list (map st_size (take j ss))"
      and e: "k = length ss \<or> c - st_size s - sum_list (map st_size (take k ss)) \<le> PRUNE_TARGET_BYTES"
      by blast
    have f: "filter (\<lambda>e. fails (ed_name e) \<or> ed_name e \<notin> st_dir ` set (take k ss)) (removeEntry fails s fs)
             = filter (\<lambda>e. fails (ed_name e) \<or> ed_name e \<notin> st_dir ` set (take (Suc k) (s # ss))) fs"
      by (cases "fails (st_dir s)") (auto simp: removeEntry_def deleteAsync_def intro: filter_cong)
    have b': "\<forall>j<Suc k. PRUNE_TARGET_BYTES < c - sum_list (map st_size (take j (s # ss)))"
    proof (intro allI impI)
      fix j assume "j < Suc k"
      show "PRUNE_TARGET_BYTES < c - sum_list (map st_size (take j (s # ss)))"
      proof (cases j)
        case 0
        with False show ?thesis by simp
      next
        case (Suc j')
        with \<open>j < Suc k\<close> b have "PRUNE_TARGET_BYTES < c - st_size s - sum_list (map st_size (take j' ss))"
          by simp
        with Suc show ?thesis by simp
      qed
    qed
    have e': "Suc k = length (s # ss) \<or> c - sum_list (map st_size (take (Suc k) (s # ss))) \<le> PRUNE_TARGET_BYTES"
      using e by auto
    have "Suc k \<le> length (s # ss)" using k by simp
    moreover have "evictLoop fails (s # ss) c fs
        = filter (\<lambda>e. fails (ed_name e) \<or> ed_name e \<notin> st_dir ` set (take (Suc k) (s # ss))) fs"
      using False r f by simp
    ultimately show ?thesis using b' e' by blast
  qed
qed

lemma statsOf_pairs:
  "image_mset statPair (mset (statsOf es)) = image_mset entryPair (mset (filter (\<lambda>e. readManifest e \<noteq> None) es))"
  by (induction es) (auto simp: statsOf_def statPair_def entryPair_def entrySize_def statOf_def split: option.splits)

lemma statsOf_dirs: "s \<in> set (statsOf es) \<Longrightarrow> st_dir s \<in> ed_name ` set es"
  by (auto simp: statsOf_def statOf_def split: option.splits)

lemma statsOf_sum: "sum_list (map st_size (statsOf es)) = cacheSize es"
  by (induction es) (auto simp: statsOf_def cacheSize_def entrySize_def split: option.splits)

lemma sum_list_sort_key: "sum_list (map g (sort_key f xs)) = sum_list (map (g :: 'a \<Rightarrow> int) xs)"
proof -
  have "mset (map g (sort_key f xs)) = mset (map g xs)" by simp
  then show ?thesis by (metis sum_mset_sum_list)
qed

lemma aged_pref:
  "cm_original ma \<noteq> None \<Longrightarrow> cm_original mb = None \<Longrightarrow> lastUsedOf ma = lastUsedOf mb
   \<Longrightarrow> agedOut now ma \<Longrightarrow> agedOut now mb"
  by (simp add: agedOut_def maxAgeOf_def ENTRY_MAX_AGE_MS_def ENTRY_MAX_AGE_WITH_ORIGINAL_MS_def)

text \<open>
  Claim C7, as the code has it. A run of \<open>maybePruneRepo\<close> that is not skipped by the
  prune interval, on a directory whose entries have different names, leaves exactly
  \<open>survivors k\<close> for one number \<open>k\<close>: the entries without a readable manifest and those
  past their age threshold are removed, and so are the first \<open>k\<close> entries in ascending
  order of last use (ties in directory order); an entry stays when the deletions of its
  directory fail. The number \<open>k\<close> is 0 when the measured total is within
  \<open>CACHE_SIZE_LIMIT_BYTES\<close>; otherwise it is the first number at which the measured total
  less the sizes of the removed is at most 80% of the limit, or all entries when there is
  none. Hence
  (1) when the measured total is over the limit and no deletion fails, the surviving
  entries total at most 80% of the limit;
  (2) cached originals are preferred by the longer age threshold only: when an entry with
  a cached original is removed for its age, an entry without one and with the same
  last-use time is removed as well. The order of the size-driven removals does not look at
  cached originals.
\<close>

theorem prune_over_budget:
  assumes gate: "\<not> recentlyPruned now lastRun" and names: "distinct (map ed_name entries)"
  shows "\<exists>k\<le>length (oldestFirst entries).
           maybePruneRepo fails now lastRun (Some entries) = (Some now, Some (survivors fails now entries k))
         \<and> (cacheSize entries \<le> CACHE_SIZE_LIMIT_BYTES \<longrightarrow> k = 0)
         \<and> (\<forall>j<k. PRUNE_TARGET_BYTES < measuredAfter entries j)
         \<and> (CACHE_SIZE_LIMIT_BYTES < cacheSize entries \<longrightarrow>
              k = length (oldestFirst entries) \<or> measuredAfter entries k \<le> PRUNE_TARGET_BYTES)
         \<and> (CACHE_SIZE_LIMIT_BYTES < cacheSize entries
              \<and> (\<forall>e\<in>set entries. \<not> fails FirstLoop (ed_name e) \<and> \<not> fails SecondLoop (ed_name e)) \<longrightarrow>
              cacheSize (survivors fails now entries k) \<le> PRUNE_TARGET_BYTES)
         \<and> (\<forall>a\<in>set entries. \<forall>b\<in>set entries. \<forall>ma mb.
                 readManifest a = Some ma \<and> readManifest b = Some mb
                 \<and> cm_original ma \<noteq> None \<and> cm_original mb = None
                 \<and> lastUsedOf ma = lastUsedOf mb \<and> agedOut now ma
                 \<and> \<not> fails FirstLoop (ed_name a) \<and> \<not> fails FirstLoop (ed_name b)
                 \<longrightarrow> a \<notin> set (survivors fails now entries k) \<and> b \<notin> set (survivors fails now entries k))"
proof -
  let ?f1 = "fails FirstLoop" and ?f2 = "fails SecondLoop"
  obtain fs1 t1 ss1 where scan: "scanEntries ?f1 now entries (entries, 0, []) = (fs1, t1, ss1)"
    by (cases "scanEntries ?f1 now entries (entries, 0, [])") auto
  from scan_total[OF scan] have t1: "t1 = cacheSize entries" and ss1: "ss1 = statsOf entries" by simp_all
  let ?D = "ed_name ` {x \<in> set entries. mustGo now x \<and> \<not> ?f1 (ed_name x)}"
  from scan_fs[OF scan] have fs1D: "fs1 = filter (\<lambda>e. ed_name e \<notin> ?D) entries" .
  from names have inj: "inj_on ed_name (set entries)" by (simp add: distinct_map)
  have D: "ed_name e \<in> ?D \<longleftrightarrow> mustGo now e \<and> \<not> ?f1 (ed_name e)" if "e \<in> set entries" for e
    using that inj by (auto dest: inj_onD)
  have fs1: "fs1 = filter (\<lambda>e. ?f1 (ed_name e) \<or> \<not> mustGo now e) entries"
    unfolding fs1D using D by (intro filter_cong) auto
  have age: "a \<notin> set (survivors fails now entries k) \<and> b \<notin> set (survivors fails now entries k)"
    if "readManifest a = Some ma" "readManifest b = Some mb"
       "cm_original ma \<noteq> None" "cm_original mb = None" "lastUsedOf ma = lastUsedOf mb" "agedOut now ma"
       "\<not> ?f1 (ed_name a)" "\<not> ?f1 (ed_name b)"
    for a b ma mb k
  proof -
    from that have "agedOut now mb" using aged_pref by blast
    with that have "mustGo now a" "mustGo now b" by (simp_all add: mustGo_def)
    with that show ?thesis by (simp add: survivors_def)
  qed
  show ?thesis
  proof (cases "t1 \<le> CACHE_SIZE_LIMIT_BYTES")
    case True
    have s0: "survivors fails now entries 0 = fs1" by (simp add: survivors_def fs1)
    have res: "maybePruneRepo fails now lastRun (Some entries) = (Some now, Some (survivors fails now entries 0))"
      using gate scan True by (simp add: maybePruneRepo_def s0)
    have "0 \<le> length (oldestFirst entries)
         \<and> maybePruneRepo fails now lastRun (Some entries) = (Some now, Some (survivors fails now entries 0))
         \<and> (cacheSize entries \<le> CACHE_SIZE_LIMIT_BYTES \<longrightarrow> (0::nat) = 0)
         \<and> (\<forall>j<0. PRUNE_TARGET_BYTES < measuredAfter entries j)
         \<and> (CACHE_SIZE_LIMIT_BYTES < cacheSize entries \<longrightarrow>
              0 = length (oldestFirst entries) \<or> measuredAfter entries 0 \<le> PRUNE_TARGET_BYTES)
         \<and> (CACHE_SIZE_LIMIT_BYTES < cacheSize entries
              \<and> (\<forall>e\<in>set entries. \<not> fails FirstLoop (ed_name e) \<and> \<not> fails SecondLoop (ed_name e)) \<longrightarrow>
              cacheSize (survivors fails now entries 0) \<le> PRUNE_TARGET_BYTES)
         \<and> (\<forall>a\<in>set entries. \<forall>b\<in>set entries. \<forall>ma mb.
                 readManifest a = Some ma \<and> readManifest b = Some mb
                 \<and> cm_original ma \<noteq> None \<and> cm_original mb = None
                 \<and> lastUsedOf ma = lastUsedOf mb \<and> agedOut now ma
                 \<and> \<not> fails FirstLoop (ed_name a) \<and> \<not> fails FirstLoop (ed_name b)
                 \<longrightarrow> a \<notin> set (survivors fails now entries 0) \<and> b \<notin> set (survivors fails now entries 0))"
      using res True t1 age by auto
    then show ?thesis by blast
  next
    case False
    from evictLoop_exact[of "oldestFirst entries" ?f2 t1 fs1] obtain k where
      k: "k \<le> length (oldestFirst entries)"
      and r: "evictLoop ?f2 (oldestFirst entries) t1 fs1
               = filter (\<lambda>e. ?f2 (ed_name e) \<or> ed_name e \<notin> st_dir ` set (take k (oldestFirst entries))) fs1"
      and b: "\<forall>j<k. PRUNE_TARGET_BYTES < t1 - sum_list (map st_size (take j (oldestFirst entries)))"
      and e: "k = length (oldestFirst entries)
              \<or> t1 - sum_list (map st_size (take k (oldestFirst entries))) \<le> PRUNE_TARGET_BYTES"
      by blast
    have "filter (\<lambda>e. ?f2 (ed_name e) \<or> ed_name e \<notin> st_dir ` set (take k (oldestFirst entries))) fs1
            = survivors fails now entries k"
      unfolding fs1 survivors_def filter_filter by (intro filter_cong) auto
    with r have sk: "evictLoop ?f2 (oldestFirst entries) t1 fs1 = survivors fails now entries k"
      by simp
    have res: "maybePruneRepo fails now lastRun (Some entries) = (Some now, Some (survivors fails now entries k))"
      using gate scan False by (simp add: maybePruneRepo_def ss1 oldestFirst_def[symmetric] sk)
    have bound: "cacheSize (survivors fails now entries k) \<le> PRUNE_TARGET_BYTES"
      if nf: "\<forall>e\<in>set entries. \<not> ?f1 (ed_name e) \<and> \<not> ?f2 (ed_name e)"
    proof -
      have fs1v: "fs1 = filter (\<lambda>e. \<not> mustGo now e) (filter (\<lambda>e. readManifest e \<noteq> None) entries)"
        unfolding fs1 filter_filter using nf
        by (intro filter_cong) (auto simp: mustGo_def split: option.splits)
      have "mset fs1 \<subseteq># mset (filter (\<lambda>e. readManifest e \<noteq> None) entries)"
        by (subst fs1v) (simp only: mset_filter multiset_filter_subset)
      then have "image_mset entryPair (mset fs1) \<subseteq># image_mset statPair (mset (statsOf entries))"
        unfolding statsOf_pairs by (rule image_mset_subseteq_mono)
      then have acc: "accounted fs1 (oldestFirst entries)" by (simp add: accounted_def oldestFirst_def)
      have nn: "\<And>s. s \<in> set (oldestFirst entries) \<Longrightarrow> 0 \<le> st_size s"
        using statsOf_nonneg by (simp add: oldestFirst_def)
      have ok: "\<And>s. s \<in> set (oldestFirst entries) \<Longrightarrow> \<not> ?f2 (st_dir s)"
        using statsOf_dirs nf by (fastforce simp: oldestFirst_def)
      have cur: "t1 = sum_list (map st_size (oldestFirst entries))"
        by (simp add: t1 oldestFirst_def sum_list_sort_key statsOf_sum)
      have "cacheSize (evictLoop ?f2 (oldestFirst entries) t1 fs1) \<le> PRUNE_TARGET_BYTES"
        using acc nn ok cur by (rule evictLoop_bound)
      then show ?thesis by (simp add: sk)
    qed
    have "k \<le> length (oldestFirst entries)
         \<and> maybePruneRepo fails now lastRun (Some entries) = (Some now, Some (survivors fails now entries k))
         \<and> (cacheSize entries \<le> CACHE_SIZE_LIMIT_BYTES \<longrightarrow> k = 0)
         \<and> (\<forall>j<k. PRUNE_TARGET_BYTES < measuredAfter entries j)
         \<and> (CACHE_SIZE_LIMIT_BYTES < cacheSize entries \<longrightarrow>
              k = length (oldestFirst entries) \<or> measuredAfter entries k \<le> PRUNE_TARGET_BYTES)
         \<and> (CACHE_SIZE_LIMIT_BYTES < cacheSize entries
              \<and> (\<forall>e\<in>set entries. \<not> fails FirstLoop (ed_name e) \<and> \<not> fails SecondLoop (ed_name e)) \<longrightarrow>
              cacheSize (survivors fails now entries k) \<le> PRUNE_TARGET_BYTES)
         \<and> (\<forall>a\<in>set entries. \<forall>b\<in>set entries. \<forall>ma mb.
                 readManifest a = Some ma \<and> readManifest b = Some mb
                 \<and> cm_original ma \<noteq> None \<and> cm_original mb = None
                 \<and> lastUsedOf ma = lastUsedOf mb \<and> agedOut now ma
                 \<and> \<not> fails FirstLoop (ed_name a) \<and> \<not> fails FirstLoop (ed_name b)
                 \<longrightarrow> a \<notin> set (survivors fails now entries k) \<and> b \<notin> set (survivors fails now entries k))"
      using k res False t1 b e bound age by (auto simp: measuredAfter_def)
    then show ?thesis by blast
  qed
qed

lemmas prune_eval = recentlyPruned_def cacheSize_def entrySize_def readManifest_def statOf_def
  fileSize_def manifestA_def manifestB_def manifestC_def manifestD_def
  entryA_def entryB_def entryC_def entryD_def CACHE_SIZE_LIMIT_BYTES_def
  PRUNE_TARGET_BYTES_def lastUsedOf_def orZero_def agedOut_def maxAgeOf_def
  ENTRY_MAX_AGE_MS_def ENTRY_MAX_AGE_WITH_ORIGINAL_MS_def maybePruneRepo_def
  removeEntry_def deleteAsync_def Let_def

text \<open>
  The second half of claim C7 as it is worded fails in the size-driven loop: of two
  entries with the same last-use time and the same size, the one with the cached original
  is removed and the one without survives, because it comes first in the directory. The
  first half fails when the file system refuses the deletions: the run ends with the
  directory as it was, over the budget.
\<close>

theorem prune_original_counterexample:
  "\<not> recentlyPruned 6000001000 None
   \<and> CACHE_SIZE_LIMIT_BYTES < cacheSize [entryA, entryB]
   \<and> readManifest entryA = Some manifestA \<and> readManifest entryB = Some manifestB
   \<and> cm_original manifestA \<noteq> None \<and> cm_original manifestB = None
   \<and> lastUsedOf manifestA = lastUsedOf manifestB
   \<and> entrySize entryA = entrySize entryB
   \<and> maybePruneRepo (\<lambda>l d. False) 6000001000 None (Some [entryA, entryB]) = (Some 6000001000, Some [entryB])
   \<and> maybePruneRepo (\<lambda>l d. True) 6000001000 None (Some [entryA, entryB])
       = (Some 6000001000, Some [entryA, entryB])
   \<and> PRUNE_TARGET_BYTES < cacheSize [entryA, entryB]"
  by (simp add: prune_eval)

text \<open>
  A directory of four entries, over the budget: the two old ones are removed for their
  age, then the size-driven loop goes through the old ones and removes the first of the
  two recent ones; the last entry survives.
\<close>

theorem prune_over_budget_witness:
  "\<not> recentlyPruned 6000001000 None
   \<and> distinct (map ed_name [entryC, entryA, entryD, entryB])
   \<and> CACHE_SIZE_LIMIT_BYTES < cacheSize [entryC, entryA, entryD, entryB]
   \<and> readManifest entryC = Some manifestC \<and> readManifest entryD = Some manifestD
   \<and> cm_original manifestC \<noteq> None \<and> cm_original manifestD = None
   \<and> lastUsedOf manifestC = lastUsedOf manifestD \<and> agedOut 6000001000 manifestC
   \<and> maybePruneRepo (\<lambda>l d. False) 6000001000 None (Some [entryC, entryA, entryD, entryB])
       = (Some 6000001000, Some [entryB])
   \<and> (\<exists>k\<le>length (oldestFirst [entryC, entryA, entryD, entryB]).
         survivors (\<lambda>l d. False) 6000001000 [entryC, entryA, entryD, entryB] k = [entryB]
       \<and> cacheSize (survivors (\<lambda>l d. False) 6000001000 [entryC, entryA, entryD, entryB] k)
            \<le> PRUNE_TARGET_BYTES
       \<and> entryC \<notin> set (survivors (\<lambda>l d. False) 6000001000 [entryC, entryA, entryD, entryB] k)
       \<and> entryD \<notin> set (survivors (\<lambda>l d. False) 6000001000 [entryC, entryA, entryD, entryB] k))"
proof -
  let ?E = "[entryC, entryA, entryD, entryB]"
  let ?F = "\<lambda>(l::pruneLoop) (d::string). False"
  have g: "\<not> recentlyPruned 6000001000 None" by (simp add: recentlyPruned_def)
  have d: "distinct (map ed_name ?E)" by (simp add: entryA_def entryB_def entryC_def entryD_def)
  have o: "CACHE_SIZE_LIMIT_BYTES < cacheSize ?E" by (simp add: prune_eval)
  have m: "readManifest entryC = Some manifestC \<and> readManifest entryD = Some manifestD
     \<and> cm_original manifestC \<noteq> None \<and> cm_original manifestD = None
     \<and> lastUsedOf manifestC = lastUsedOf manifestD \<and> agedOut 6000001000 manifestC"
    by (simp add: prune_eval)
  have ev: "maybePruneRepo ?F 6000001000 None (Some ?E) = (Some 6000001000, Some [entryB])"
    by (simp add: prune_eval)
  have i: "entryC \<in> set ?E" "entryD \<in> set ?E" by simp_all
  from prune_over_budget[OF g d, of ?F] obtain k where
    k: "k \<le> length (oldestFirst ?E)"
    and r: "maybePruneRepo ?F 6000001000 None (Some ?E)
              = (Some 6000001000, Some (survivors ?F 6000001000 ?E k))"
    and b: "CACHE_SIZE_LIMIT_BYTES < cacheSize ?E
              \<and> (\<forall>e\<in>set ?E. \<not> ?F FirstLoop (ed_name e) \<and> \<not> ?F SecondLoop (ed_name e)) \<longrightarrow>
              cacheSize (survivors ?F 6000001000 ?E k) \<le> PRUNE_TARGET_BYTES"
    and a: "\<forall>a\<in>set ?E. \<forall>b\<in>set ?E. \<forall>ma mb.
                 readManifest a = Some ma \<and> readManifest b = Some mb
                 \<and> cm_original ma \<noteq> None \<and> cm_original mb = None
                 \<and> lastUsedOf ma = lastUsedOf mb \<and> agedOut 6000001000 ma
                 \<and> \<not> ?F FirstLoop (ed_name a) \<and> \<not> ?F FirstLoop (ed_name b)
                 \<longrightarrow> a \<notin> set (survivors ?F 6000001000 ?E k)
                     \<and> b \<notin> set (survivors ?F 6000001000 ?E k)"
    by blast
  from r ev have s: "survivors ?F 6000001000 ?E k = [entryB]" by simp
  from b o have c: "cacheSize (survivors ?F 6000001000 ?E k) \<le> PRUNE_TARGET_BYTES" by simp
  from a i m have n: "entryC \<notin> set (survivors ?F 6000001000 ?E k)
                    \<and> entryD \<notin> set (survivors ?F 6000001000 ?E k)" by blast
  from k s c n have "\<exists>k\<le>length (oldestFirst ?E).
         survivors ?F 6000001000 ?E k = [entryB]
       \<and> cacheSize (survivors ?F 6000001000 ?E k) \<le> PRUNE_TARGET_BYTES
       \<and> entryC \<notin> set (survivors ?F 6000001000 ?E k)
       \<and> entryD \<notin> set (survivors ?F 6000001000 ?E k)" by blast
  with g d o m ev show ?thesis by simp
qed

section \<open>Properties of the job queue\<close>

lemma enqueue_settles:
  assumes "settle env (jq_current q) = (Fulfilled, tr)"
  shows "settle env (jq_current (fst (enqueue q job))) = (Fulfilled, tr @ [Invoked job, Settled job (env job)])"
  using assms by (simp add: enqueue_def Let_def)

lemma enqueueAll_settles:
  "settle env (jq_current q) = (Fulfilled, tr) \<Longrightarrow>
   settle env (jq_current (enqueueAll q jobs)) = (Fulfilled, tr @ jobEvents env jobs)"
proof (induction jobs arbitrary: q tr)
  case Nil
  then show ?case by (simp add: enqueueAll_def jobEvents_def)
next
  case (Cons job jobs)
  from enqueue_settles[OF Cons.prems]
  have "settle env (jq_current (fst (enqueue q job))) = (Fulfilled, tr @ [Invoked job, Settled job (env job)])" .
  from Cons.IH[OF this] show ?case by (simp add: enqueueAll_def jobEvents_def)
qed

lemma jobEvents_length: "length (jobEvents env jobs) = 2 * length jobs"
  by (induction jobs) (simp_all add: jobEvents_def)

lemma jobEvents_nth:
  "k < length jobs \<Longrightarrow> jobEvents env jobs ! (2 * k) = Invoked (jobs ! k)
     \<and> jobEvents env jobs ! (2 * k + 1) = Settled (jobs ! k) (env (jobs ! k))"
proof (induction jobs arbitrary: k)
  case Nil
  then show ?case by simp
next
  case (Cons j jobs)
  show ?case
  proof (cases k)
    case 0
    then show ?thesis by (simp add: jobEvents_def)
  next
    case (Suc k')
    with Cons.prems have "k' < length jobs" by simp
    from Cons.IH[OF this] Suc show ?thesis by (simp add: jobEvents_def)
  qed
qed

text \<open>
  Claim C9. After any jobs have been enqueued, in this order, on a fresh queue, the events
  of the chain are exactly: first job invoked, first job settled, second job invoked,
  second job settled, and so on, whatever way each job settles. So a later job's function
  is never invoked before every earlier job's promise has settled (the settlement of job
  \<open>i\<close> is at position \<open>2i + 1\<close>, the invocation of a later job \<open>k\<close> at position
  \<open>2k\<close>), and every enqueued job is invoked even when earlier jobs reject.
\<close>

theorem jobs_serialized:
  "queueTrace env (enqueueAll newJobQueue jobs) = jobEvents env jobs
   \<and> length (queueTrace env (enqueueAll newJobQueue jobs)) = 2 * length jobs
   \<and> (\<forall>i k. i < k \<longrightarrow> k < length jobs \<longrightarrow>
         queueTrace env (enqueueAll newJobQueue jobs) ! (2 * i + 1) = Settled (jobs ! i) (env (jobs ! i))
       \<and> queueTrace env (enqueueAll newJobQueue jobs) ! (2 * k) = Invoked (jobs ! k)
       \<and> 2 * i + 1 < 2 * k)"
proof -
  have "settle env (jq_current newJobQueue) = (Fulfilled, [])" by (simp add: newJobQueue_def)
  from enqueueAll_settles[OF this]
  have tr: "queueTrace env (enqueueAll newJobQueue jobs) = jobEvents env jobs"
    by (simp add: queueTrace_def)
  show ?thesis unfolding tr using jobEvents_length jobEvents_nth
    by (auto simp: less_trans)
qed

theorem jobs_serialized_witness:
  "(0::nat) < 1 \<and> (1::nat) < length [7, 8 :: nat]
   \<and> queueTrace (\<lambda>j. Rejected) (enqueueAll newJobQueue [7, 8])
       = [Invoked 7, Settled 7 Rejected, Invoked 8, Settled 8 Rejected]
   \<and> queueTrace (\<lambda>j. Rejected) (enqueueAll newJobQueue [7, 8]) ! (2 * 0 + 1) = Settled 7 Rejected
   \<and> queueTrace (\<lambda>j. Rejected) (enqueueAll newJobQueue [7, 8]) ! (2 * 1) = Invoked 8"
  using jobs_serialized[of "\<lambda>j. Rejected" "[7, 8]"]
  by (simp add: jobEvents_def)

section \<open>Properties of the remote storage bridge\<close>

lemma map_of_update_same: "map_of (AList.update k v al) k = Some v"
  by (simp add: update_conv')


lemma lookup_putPath:
  "putPath segs (File s c) ch = Some ch' \<Longrightarrow> lookupPath segs ch' = Some (File s c)"
proof (induction segs arbitrary: ch ch')
  case Nil
  then show ?case by simp
next
  case (Cons seg segs)
  show ?case
  proof (cases "segs = []")
    case True
    with Cons.prems have "ch' = AList.update seg (File s c) ch"
      by (auto split: option.splits node.splits)
    with True show ?thesis by (simp add: map_of_update_same)
  next
    case False
    from Cons.prems False obtain sub sub' where
      p: "putPath segs (File s c) sub = Some sub'" and c: "ch' = AList.update seg (Dir sub') ch"
      by (auto split: option.splits node.splits)
    from Cons.IH[OF p] c False show ?thesis by (simp add: map_of_update_same)
  qed
qed

lemma putPath_over_file:
  "lookupPath segs ch = Some (File cur old) \<Longrightarrow> \<exists>ch'. putPath segs f ch = Some ch'"
proof (induction segs arbitrary: ch)
  case Nil
  then show ?case by simp
next
  case (Cons seg segs)
  show ?case
  proof (cases "segs = []")
    case True
    with Cons.prems show ?thesis by (auto split: option.splits node.splits)
  next
    case False
    from Cons.prems False obtain sub where
      m: "map_of ch seg = Some (Dir sub)" and l: "lookupPath segs sub = Some (File cur old)"
      by (auto split: option.splits node.splits if_splits)
    from Cons.IH[OF l] obtain sub' where "putPath segs f sub = Some sub'" by blast
    with m False show ?thesis by simp
  qed
qed

lemma fetchFileSha_cases:
  "fetchFileSha r path =
     (case lookupPath (splitPath path) (rm_root r) of
        Some (File sha c) \<Rightarrow> Inr (Some sha) | _ \<Rightarrow> Inr None)"
  by (simp add: fetchFileSha_def getContent_def split: option.splits node.splits)

text \<open>
  Claim C10, when nobody else changes what is at the path between the lookup and the
  write of \<open>putFile\<close>. Without a SHA the call never fails with a version conflict; when
  it succeeds the path holds the new content under the SHA returned; a file that is at the
  path is always replaced. A caller that passes a SHA other than the current one gets the
  version conflict and the remote is unchanged.
\<close>

theorem putFile_without_sha:
  assumes quiet: "lookupPath (splitPath path) (rm_root (others r)) = lookupPath (splitPath path) (rm_root r)"
  shows "fst (putFile r others path c None) \<noteq> Inl VersionConflict
   \<and> (\<forall>sha r'. putFile r others path c None = (Inr sha, r') \<longrightarrow>
         getContent r' path = Inr (FileData sha (Blob c)))
   \<and> (\<forall>cur old. getContent r path = Inr (FileData cur old) \<longrightarrow>
         (\<exists>sha r'. putFile r others path c None = (Inr sha, r')))
   \<and> (\<forall>cur old stale. getContent r path = Inr (FileData cur old) \<longrightarrow> stale \<noteq> cur \<longrightarrow>
         putFile r others path c (Some stale) = (Inl VersionConflict, r))"
proof (intro conjI allI impI)
  show "fst (putFile r others path c None) \<noteq> Inl VersionConflict"
    using quiet
    by (auto simp: putFile_def fetchFileSha_cases createOrUpdateFileContents_def Let_def
             split: option.splits node.splits)
next
  fix sha r' assume ok: "putFile r others path c None = (Inr sha, r')"
  then obtain root' where
    p: "putPath (splitPath path) (File sha (Blob c)) (rm_root (others r)) = Some root'" and
    r': "rm_root r' = root'"
    by (auto simp: putFile_def fetchFileSha_cases createOrUpdateFileContents_def Let_def
             split: option.splits node.splits if_splits)
  from lookup_putPath[OF p] r' show "getContent r' path = Inr (FileData sha (Blob c))"
    by (simp add: getContent_def)
next
  fix cur old assume "getContent r path = Inr (FileData cur old)"
  then have l: "lookupPath (splitPath path) (rm_root r) = Some (File cur old)"
    by (auto simp: getContent_def split: option.splits node.splits)
  with quiet have l': "lookupPath (splitPath path) (rm_root (others r)) = Some (File cur old)" by simp
  from putPath_over_file[OF l'] obtain root' where
    "putPath (splitPath path) (File (freshSha (others r)) (Blob c)) (rm_root (others r)) = Some root'"
    by blast
  with l l' show "\<exists>sha r'. putFile r others path c None = (Inr sha, r')"
    by (simp add: putFile_def fetchFileSha_cases createOrUpdateFileContents_def Let_def)
next
  fix cur old stale assume "getContent r path = Inr (FileData cur old)" and ne: "stale \<noteq> cur"
  then have l: "lookupPath (splitPath path) (rm_root r) = Some (File cur old)"
    by (auto simp: getContent_def split: option.splits node.splits)
  with ne show "putFile r others path c (Some stale) = (Inl VersionConflict, r)"
    by (simp add: putFile_def createOrUpdateFileContents_def Let_def)
qed

lemmas putFile_eval = putFile_def fetchFileSha_def getContent_def createOrUpdateFileContents_def
  splitPath_def remoteA_def pathA_def pathB_def otherWriter_def freshSha_def showNat.simps
  digitChar_def Let_def

text \<open>
  While this client replaces the file at one path, another client uploads a file to
  another path between the two requests: the replacement goes through.
\<close>

theorem putFile_without_sha_witness:
  "lookupPath (splitPath pathA) (rm_root (otherWriter pathB remoteA))
     = lookupPath (splitPath pathA) (rm_root remoteA)
   \<and> getContent remoteA pathA = Inr (FileData ''sha0'' (Blob ''AAAA''))
   \<and> ''stale'' \<noteq> ''sha0''
   \<and> (\<exists>sha r'. putFile remoteA (otherWriter pathB) pathA ''BBBB'' None = (Inr sha, r')
         \<and> getContent r' pathA = Inr (FileData sha (Blob ''BBBB'')))
   \<and> putFile remoteA (otherWriter pathB) pathA ''BBBB'' (Some ''stale'') = (Inl VersionConflict, remoteA)"
proof -
  have q: "lookupPath (splitPath pathA) (rm_root (otherWriter pathB remoteA))
     = lookupPath (splitPath pathA) (rm_root remoteA)"
    by (simp add: putFile_eval)
  have g: "getContent remoteA pathA = Inr (FileData ''sha0'' (Blob ''AAAA''))"
    by (simp add: getContent_def remoteA_def splitPath_def pathA_def)
  have n: "''stale'' \<noteq> ''sha0''" by simp
  note t = putFile_without_sha[of pathA "otherWriter pathB" remoteA "''BBBB''", OF q]
  have "\<exists>sha r'. putFile remoteA (otherWriter pathB) pathA ''BBBB'' None = (Inr sha, r')"
    using t[THEN conjunct2, THEN conjunct2, THEN conjunct1, rule_format, OF g] .
  then obtain sha r' where ok: "putFile remoteA (otherWriter pathB) pathA ''BBBB'' None = (Inr sha, r')"
    by (elim exE)
  have g': "getContent r' pathA = Inr (FileData sha (Blob ''BBBB''))"
    using t[THEN conjunct2, THEN conjunct1, rule_format, OF ok] .
  have cf: "putFile remoteA (otherWriter pathB) pathA ''BBBB'' (Some ''stale'') = (Inl VersionConflict, remoteA)"
    using t[THEN conjunct2, THEN conjunct2, THEN conjunct2, rule_format, OF g n] .
  have ex: "\<exists>sha r'. putFile remoteA (otherWriter pathB) pathA ''BBBB'' None = (Inr sha, r')
         \<and> getContent r' pathA = Inr (FileData sha (Blob ''BBBB''))"
    using ok g' by (intro exI conjI)
  show ?thesis using q g n ex cf by (intro conjI)
qed

text \<open>
  Claim C10 as it is worded fails when another client replaces the file at the same path
  between the lookup and the write: the call made without a SHA is refused with a version
  conflict, for a change that neither the caller nor \<open>putFile\<close> had observed, and the
  file keeps the other client's content.
\<close>

theorem putFile_conflict_without_sha:
  "fst (putFile remoteA (otherWriter pathA) pathA ''BBBB'' None) = Inl VersionConflict
   \<and> getContent (snd (putFile remoteA (otherWriter pathA) pathA ''BBBB'' None)) pathA
       = Inr (FileData ''sha1'' (Blob ''CCCC''))"
  by (simp add: putFile_eval)

section \<open>Evaluating operations on concrete states\<close>

text \<open>
  The simplifier runs an operation the way the program does: the first computation of a
  sequence is evaluated before its continuation is looked at.
\<close>

lemmas remote_eval = getContent_def splitPath_def createOrUpdateFileContents_def deleteFileContents_def
  freshSha_def showNat.simps digitChar_def itemOf_def Let_def

lemmas bucket_eval = META_ROOT_def META_MANIFEST_PATH_def LEGACY_META_SHARD_DIR_def SHARD_FILENAME_def
  MANIFEST_VERSION_def SHARD_VERSION_def isDigit_def isLower_def isSpace_def toLowerChar_def trim_def
  isPrefix_def sanitizeBucket_def bucketDateParts_def getShardPath_def bucketFromShardFilePath_def
  bucketFromFingerprint_def parseNumber_def bucketFromTimestamp_def valNat_def

lemmas meta_eval = fetchManifest_def writeManifest_def fetchShardDocument_def persistShard_def
  deleteShardFile_def listShardFiles_def buildStep_def buildManifestFromExistingShards_def
  shardFromManifestRow_def ensureBaseState_def ensureShardLoaded_def markManifestEntry_def
  entryCount_def makeEmptyShard_def normalizeManifest_def normalizeShardDocument_def
  normalizeShardEntries_def normalizeShardEntry_def jfield_def toNumber_def toNullableNumber_def
  toOptionalString_def objectEntries_def isObject_def decode_def
  isArrayIndex_def setProp_def parsedProps_def assignProp_def assignEntry_def objectPrototypeKeys_def
  entryFieldTruthy_def hasTruthyEntry_def
  jsonOfManifest_def jsonOfShard_def jsonOfShardInfo_def jsonOfEntry_def jsonOfString_def jsonOfNumber_def
  registerPaths_def removeEntryFromCache_def evictBucketEntries_def ingestEntry_def ingestShardDocument_def
  setAdd_def emptyMetaState_def groupFingerprints_def removeFromDoc_def removeGroup_def
  persistManifest_def removeMetaEntries_def

lemmas world_eval = freshWorld_def emptyRemote_def emptyStore_def initialSyncState_def initialSyncStatus_def

lemma andThen_apply:
  "andThen m f w = (case m w of (Inl e, w') \<Rightarrow> (Inl e, w') | (Inr x, w') \<Rightarrow> f x w')"
  by (simp add: andThen_def)

lemma andThen_weak_cong: "m = m' \<Longrightarrow> andThen m f = andThen m' f"
  by simp

lemmas io_eval = ret_def throw_def andThen_apply modify_def gets_def onRemote_def modifyMeta_def
  modifyCache_def storeShard_def

lemmas eval_congs = andThen_weak_cong sum.case_cong_weak prod.case_cong_weak option.case_cong_weak
  list.case_cong_weak node.case_cong_weak getResult.case_cong_weak json.case_cong_weak
  error.case_cong_weak content.case_cong_weak if_weak_cong let_weak_cong

lemmas ex_eval = fingerprintA_def entryA1_def shardDocA_def remoteDated_def remoteLegacy_def pathA_def
  shardEntryOf_def

lemmas date_eval = utcDate_def pad2_def showInt_def

section \<open>Properties of the metadata store\<close>

text \<open>
  Claim C1 at a concrete input. The remote is empty and the application has just started.
  \<open>removeMetaEntries\<close> is called with the fingerprint of a photo that has no meta
  entry. The call completes without error, and afterwards the cached manifest has a row
  for the bucket of that fingerprint with count 0: \<open>ensureShardLoaded\<close> recorded the
  empty shard it found, and the loop skipped the group without removing the row.
\<close>

theorem removeMetaEntries_leaves_empty_row:
  "fst (removeMetaEntries 1000 [fingerprintA] (freshWorld emptyRemote)) = Inr ()
   \<and> manifestCounts (snd (removeMetaEntries 1000 [fingerprintA] (freshWorld emptyRemote)))
       = Some [(''2024-01-15'', 0)]"
  by (simp add: io_eval remote_eval bucket_eval meta_eval world_eval ex_eval date_eval manifestCounts_def
           cong: eval_congs)

text \<open>
  Claim C2 at a concrete input. The remote has no manifest and holds one shard file with
  one entry, at the dated path that \<open>getShardPath\<close> gives for its bucket. The bootstrap
  reconstructs a manifest without any row: \<open>bucketFromShardFilePath\<close> does not recognise
  the dated path, so the walk does not list the file.
\<close>

theorem bootstrap_misses_dated_shard:
  "getShardPath ''2024-01-15'' = ''gitgallery/meta/2024/01/15/meta_dict.json''
   \<and> getContent remoteDated (getShardPath ''2024-01-15'')
       = Inr (FileData ''sha0'' (JsonText (jsonOfShard shardDocA)))
   \<and> getContent remoteDated META_MANIFEST_PATH = Inl NotFound
   \<and> bucketFromShardFilePath (Some (getShardPath ''2024-01-15'')) = None
   \<and> fst (ensureBaseState 1000 (freshWorld remoteDated))
        = Inr \<lparr> c_manifest = \<lparr> mf_version = 1, mf_updatedAt = 1000, mf_shards = [] \<rparr>,
                  c_manifestSha = Some ''sha1'', c_shards = [], c_fetchedAt = 1000 \<rparr>"
  by (simp add: io_eval remote_eval bucket_eval meta_eval world_eval ex_eval date_eval manifestCounts_def
           cong: eval_congs)

text \<open>The same document at the legacy path is found, and its row has the count 1.\<close>

lemma bootstrap_finds_legacy_shard:
  "manifestCounts (snd (ensureBaseState 1000 (freshWorld remoteLegacy))) = Some [(''2024-01-15'', 1)]"
  by (simp add: io_eval remote_eval bucket_eval meta_eval world_eval ex_eval date_eval manifestCounts_def
           cong: eval_congs)

section \<open>Round trip of a meta entry\<close>







lemma delete_list_all:
  "list_all P al \<Longrightarrow> list_all P (AList.delete k al)"
  by (induction al) (auto simp: list_all_iff)

















lemma wfEntries_delete: "wfEntries es \<Longrightarrow> wfEntries (AList.delete k es)"
  by (simp add: wfEntries_def distinct_delete delete_list_all)

























































end
